theory Spec2Isabelle
  imports Complex_Main
begin

section \<open>The model manager of ForgePipeline (model\_manager.py)\<close>

text \<open>
  The manager keeps one slot per model, a generation lock and two counters. Everything it
  calls outside itself (torch, diffusers, PIL, the file system, the clock) is an external
  call: its outcome is read from an environment, indexed by the number of external calls
  made so far, so that every such call may independently raise. Calls between which the
  manager does nothing are counted as one call. Logging does not touch the manager and is
  left out; \<open>import\<close> statements outside a \<open>try\<close> are taken to succeed; the model
  lock, taken and released inside \<open>load_*\<close> and \<open>shutdown\<close> only, is never held
  between two calls of one thread and is left out as well.
\<close>

subsection \<open>Data\<close>

datatype ModelType = INSTANTMESH | SDXL

datatype ModelState = UNLOADED | LOADING | READY | GENERATING | UNLOADING | ERROR

type_synonym handle = nat

text \<open>One entry of \<open>self._models\<close>.\<close>

record model_info =
  state :: ModelState
  pipeline :: "handle option"
  load_count :: nat

record ModelManager =
  models :: "ModelType \<Rightarrow> model_info"
  generation_lock :: bool
  generation_count :: nat
  total_generation_time :: real
  restart_threshold :: int
  vram_buffer_gb :: real

text \<open>The keys of config.yaml the manager reads; a missing key is \<open>None\<close>.\<close>

record config =
  buffer_gb :: "real option"
  generation_count_before_restart :: "int option"
  instantmesh_required_vram_gb :: "real option"
  sdxl_required_vram_gb :: "real option"

text \<open>What \<open>get_vram_info\<close> returns, reduced to the keys the manager reads.\<close>

record vram_info =
  available :: bool
  free_gb :: real

text \<open>The object a pipeline call returns: its attributes, \<open>None\<close> when absent.\<close>

record pipeline_output =
  images :: "nat list option"
  meshes :: "nat list option"
  mesh :: "nat option"
  vertices :: "nat option"
  faces :: "nat option"

record environment =
  CONFIG :: config
  raises :: "nat \<Rightarrow> string option"
  vram_at :: "nat \<Rightarrow> vram_info"
  handle_at :: "nat \<Rightarrow> handle"
  output_at :: "nat \<Rightarrow> pipeline_output"
  time_at :: "nat \<Rightarrow> real"
  size_at :: "nat \<Rightarrow> nat"

text \<open>
  The trace records what an observer of the manager sees, in order: the slot table after
  each assignment to it, each operation on the generation lock, each entry into a public
  generation function, and each verdict of the VRAM budget check.
\<close>

datatype event =
    Slots "ModelType \<Rightarrow> model_info"
  | TryAcquire bool
  | AcquireBlocking
  | Release
  | Enter string
  | Budget bool

record world =
  mgr :: ModelManager
  env :: environment
  ticks :: nat
  trace :: "event list"

datatype 'a outcome = Return 'a | Raise string

subsection \<open>Construction\<close>

definition ModelManager_init :: "config \<Rightarrow> real option \<Rightarrow> ModelManager" where
  "ModelManager_init cfg vram_buffer =
     \<lparr>models = (\<lambda>_. \<lparr>state = UNLOADED, pipeline = None, load_count = 0\<rparr>),
      generation_lock = False,
      generation_count = 0,
      total_generation_time = 0,
      restart_threshold =
        (case generation_count_before_restart cfg of None \<Rightarrow> 20 | Some n \<Rightarrow> n),
      vram_buffer_gb =
        (case vram_buffer of Some b \<Rightarrow> b
         | None \<Rightarrow> (case buffer_gb cfg of None \<Rightarrow> 2 | Some b \<Rightarrow> b))\<rparr>"

text \<open>The singleton \<open>model_manager = ModelManager()\<close> in a fresh process.\<close>

definition model_manager :: "environment \<Rightarrow> world" where
  "model_manager e =
     \<lparr>mgr = ModelManager_init (CONFIG e) None, env = e, ticks = 0,
      trace = [Slots (models (ModelManager_init (CONFIG e) None))]\<rparr>"

subsection \<open>Primitive steps\<close>

abbreviation slot :: "world \<Rightarrow> ModelType \<Rightarrow> model_info" where
  "slot w t \<equiv> models (mgr w) t"

definition emit :: "event \<Rightarrow> world \<Rightarrow> world" where
  "emit e w = w\<lparr>trace := trace w @ [e]\<rparr>"

definition update_slot :: "ModelType \<Rightarrow> (model_info \<Rightarrow> model_info) \<Rightarrow> world \<Rightarrow> world" where
  "update_slot t f w =
     emit (Slots ((models (mgr w))(t := f (models (mgr w) t))))
       (w\<lparr>mgr := (mgr w)\<lparr>models := (models (mgr w))(t := f (models (mgr w) t))\<rparr>\<rparr>)"

definition set_state :: "ModelType \<Rightarrow> ModelState \<Rightarrow> world \<Rightarrow> world" where
  "set_state t s = update_slot t (\<lambda>i. i\<lparr>state := s\<rparr>)"

definition set_pipeline :: "ModelType \<Rightarrow> handle option \<Rightarrow> world \<Rightarrow> world" where
  "set_pipeline t p = update_slot t (\<lambda>i. i\<lparr>pipeline := p\<rparr>)"

definition inc_load_count :: "ModelType \<Rightarrow> world \<Rightarrow> world" where
  "inc_load_count t = update_slot t (\<lambda>i. i\<lparr>load_count := load_count i + 1\<rparr>)"

definition tick :: "world \<Rightarrow> world" where
  "tick w = w\<lparr>ticks := Suc (ticks w)\<rparr>"

text \<open>An external call whose value is not used: it returns or raises.\<close>

definition external :: "world \<Rightarrow> unit outcome \<times> world" where
  "external w =
     (case raises (env w) (ticks w) of
        None \<Rightarrow> (Return (), tick w)
      | Some e \<Rightarrow> (Raise e, tick w))"

text \<open>\<open>time.time()\<close>.\<close>

definition now :: "world \<Rightarrow> real \<times> world" where
  "now w = (time_at (env w) (ticks w), tick w)"

text \<open>
  \<open>get_vram_info\<close> catches every exception of the query and then reports
  \<open>available = False\<close>, so it never raises.
\<close>

definition get_vram_info :: "world \<Rightarrow> vram_info \<times> world" where
  "get_vram_info w = (vram_at (env w) (ticks w), tick w)"

definition clear_vram :: "world \<Rightarrow> unit outcome \<times> world" where
  "clear_vram w = external w"

subsection \<open>The generation lock\<close>

text \<open>\<open>self._generation_lock.acquire(blocking=False)\<close>.\<close>

definition try_acquire :: "world \<Rightarrow> bool \<times> world" where
  "try_acquire w =
     (if generation_lock (mgr w) then (False, emit (TryAcquire False) w)
      else (True, emit (TryAcquire True) (w\<lparr>mgr := (mgr w)\<lparr>generation_lock := True\<rparr>\<rparr>)))"

text \<open>
  \<open>self._generation_lock.acquire()\<close> waits until the lock is free. In a run of one
  thread nobody else releases it, so on a held lock the call does not return: \<open>None\<close>.
\<close>

definition acquire_blocking :: "world \<Rightarrow> world option" where
  "acquire_blocking w =
     (if generation_lock (mgr w) then None
      else Some (emit AcquireBlocking (w\<lparr>mgr := (mgr w)\<lparr>generation_lock := True\<rparr>\<rparr>)))"

text \<open>\<open>self._generation_lock.release()\<close>: RuntimeError on a lock that is not held.\<close>

definition release :: "world \<Rightarrow> unit outcome \<times> world" where
  "release w =
     (if generation_lock (mgr w)
      then (Return (), emit Release (w\<lparr>mgr := (mgr w)\<lparr>generation_lock := False\<rparr>\<rparr>))
      else (Raise ''release unlocked lock'', w))"

subsection \<open>Floats\<close>

text \<open>
  A Python float is an IEEE 754 binary64 number: a real with a significand of 53 bits and
  an exponent from -1022 to 1023, an infinity, or NaN. \<open>float_of\<close> gives the float of a
  real: the nearest binary64 number, a tie going to the one with an even significand, and
  an infinity from \<open>2 ^ 1024\<close> on. This is the value Python gives to a float literal,
  to \<open>int / int\<close> and, in \<open>float_add\<close>, to the exact sum of two floats.
\<close>

datatype float = Finite real | Infinity | NegInfinity | NaN

text \<open>Rounding to the nearest integer, a tie to the even one.\<close>

definition round_half_even :: "real \<Rightarrow> int" where
  "round_half_even x =
     (if x - of_int \<lfloor>x\<rfloor> < 1 / 2 then \<lfloor>x\<rfloor>
      else if x - of_int \<lfloor>x\<rfloor> > 1 / 2 then \<lfloor>x\<rfloor> + 1
      else if even \<lfloor>x\<rfloor> then \<lfloor>x\<rfloor> else \<lfloor>x\<rfloor> + 1)"

text \<open>\<open>int.bit_length\<close> on the integers that are not negative.\<close>

function bit_length :: "int \<Rightarrow> int" where
  "bit_length n = (if n \<le> 0 then 0 else 1 + bit_length (n div 2))"
  by pat_completeness auto
termination by (relation "measure nat") auto

declare bit_length.simps [simp del]

text \<open>The exponent \<open>e\<close> of a real that is not zero: \<open>2 ^ e \<le> \<bar>x\<bar> < 2 ^ (e + 1)\<close>.\<close>

definition exponent :: "real \<Rightarrow> int" where
  "exponent x =
     (if 1 \<le> \<bar>x\<bar> then bit_length \<lfloor>\<bar>x\<bar>\<rfloor> - 1
      else - bit_length (\<lceil>1 / \<bar>x\<bar>\<rceil> - 1))"

definition pow2 :: "int \<Rightarrow> real" where
  "pow2 e = (if 0 \<le> e then 2 ^ nat e else 1 / 2 ^ nat (- e))"

text \<open>
  The nearest real with a significand of 53 bits and an exponent of at least -1022
  (below it the numbers are subnormal and their spacing stays \<open>2 ^ -1074\<close>).
\<close>

definition nearest :: "real \<Rightarrow> real" where
  "nearest x =
     (if x = 0 then 0
      else of_int (round_half_even (x / pow2 (max (exponent x) (- 1022) - 52))) *
           pow2 (max (exponent x) (- 1022) - 52))"

definition float_of :: "real \<Rightarrow> float" where
  "float_of x =
     (if 2 ^ 1024 \<le> nearest x then Infinity
      else if nearest x \<le> - (2 ^ 1024) then NegInfinity
      else Finite (nearest x))"

text \<open>\<open>x + y\<close> on floats.\<close>

fun float_add :: "float \<Rightarrow> float \<Rightarrow> float" where
  "float_add (Finite x) (Finite y) = float_of (x + y)"
| "float_add NaN _ = NaN"
| "float_add _ NaN = NaN"
| "float_add Infinity NegInfinity = NaN"
| "float_add NegInfinity Infinity = NaN"
| "float_add Infinity _ = Infinity"
| "float_add _ Infinity = Infinity"
| "float_add NegInfinity _ = NegInfinity"
| "float_add _ NegInfinity = NegInfinity"

text \<open>\<open>x < y\<close> on floats.\<close>

fun float_less :: "float \<Rightarrow> float \<Rightarrow> bool" where
  "float_less (Finite x) (Finite y) = (x < y)"
| "float_less NaN _ = False"
| "float_less _ NaN = False"
| "float_less _ NegInfinity = False"
| "float_less Infinity _ = False"
| "float_less NegInfinity _ = True"
| "float_less _ Infinity = True"

subsection \<open>Admission\<close>

text \<open>
  The decision of \<open>_check_vram_budget\<close> on the answer of the probe. The probe's
  \<open>free_gb\<close> is the float of \<open>free / 1024 ** 3\<close>; the requirement and the buffer are
  the floats written in config.yaml or the defaults. \<open>needed\<close> is their float sum, and
  the comparison is the one of floats.
\<close>

definition budget_ok :: "vram_info \<Rightarrow> real \<Rightarrow> real \<Rightarrow> bool" where
  "budget_ok vram required_gb buffer =
     (if \<not> available vram then True
      else if float_less (float_of (free_gb vram))
                (float_add (float_of required_gb) (float_of buffer)) then False
      else True)"

definition check_vram_budget :: "real \<Rightarrow> world \<Rightarrow> bool \<times> world" where
  "check_vram_budget required_gb w =
     (case get_vram_info w of (vram, w1) \<Rightarrow>
        (budget_ok vram required_gb (vram_buffer_gb (mgr w1)),
         emit (Budget (budget_ok vram required_gb (vram_buffer_gb (mgr w1)))) w1))"

subsection \<open>Status\<close>

record status =
  status_models :: "ModelType \<Rightarrow> ModelState \<times> nat"
  status_generation_count :: nat
  avg_generation_time :: real
  vram :: vram_info
  needs_restart :: bool

definition get_status :: "world \<Rightarrow> status \<times> world" where
  "get_status w =
     (case get_vram_info w of (v, w1) \<Rightarrow>
        (\<lparr>status_models = (\<lambda>t. (state (slot w t), load_count (slot w t))),
          status_generation_count = generation_count (mgr w),
          avg_generation_time =
            (if generation_count (mgr w) > 0
             then total_generation_time (mgr w) / real (generation_count (mgr w)) else 0),
          vram = v,
          needs_restart = (int (generation_count (mgr w)) \<ge> restart_threshold (mgr w))\<rparr>,
         w1))"

subsection \<open>Unloading\<close>

definition unload_model :: "ModelType \<Rightarrow> world \<Rightarrow> unit outcome \<times> world" where
  "unload_model t w =
     (if state (slot w t) = UNLOADED then (Return (), w)
      else
        (let w1 = set_state t UNLOADING w;
             w2 = (if pipeline (slot w1 t) \<noteq> None then set_pipeline t None w1 else w1)
         in case clear_vram w2 of
              (Return _, w3) \<Rightarrow> (Return (), set_state t UNLOADED w3)
            | (Raise e, w3) \<Rightarrow> clear_vram (set_state t ERROR (set_pipeline t None w3))))"

text \<open>\<open>for model_type in ModelType\<close>: the members in the order of their definition.\<close>

definition all_models :: "ModelType list" where
  "all_models = [INSTANTMESH, SDXL]"

fun unload_each :: "ModelType list \<Rightarrow> world \<Rightarrow> unit outcome \<times> world" where
  "unload_each [] w = (Return (), w)"
| "unload_each (t # ts) w =
     (case unload_model t w of
        (Raise e, w1) \<Rightarrow> (Raise e, w1)
      | (Return _, w1) \<Rightarrow> unload_each ts w1)"

definition unload_all :: "world \<Rightarrow> unit outcome \<times> world" where
  "unload_all w = unload_each all_models w"

definition shutdown :: "world \<Rightarrow> unit outcome \<times> world" where
  "shutdown w = unload_all w"

subsection \<open>Loading\<close>

definition required_vram_gb :: "config \<Rightarrow> ModelType \<Rightarrow> real" where
  "required_vram_gb cfg t =
     (case t of
        INSTANTMESH \<Rightarrow> (case instantmesh_required_vram_gb cfg of None \<Rightarrow> 6 | Some g \<Rightarrow> g)
      | SDXL \<Rightarrow> (case sdxl_required_vram_gb cfg of None \<Rightarrow> 8 | Some g \<Rightarrow> g))"

text \<open>
  \<open>from_pretrained(...)\<close>, \<open>.to('cuda')\<close> and the options set on the new pipeline:
  they raise, or give the pipeline object.
\<close>

definition from_pretrained :: "world \<Rightarrow> handle outcome \<times> world" where
  "from_pretrained w =
     (case raises (env w) (ticks w) of
        None \<Rightarrow> (Return (handle_at (env w) (ticks w)), tick w)
      | Some e \<Rightarrow> (Raise e, tick w))"

text \<open>
  \<open>load_instantmesh\<close> and \<open>load_sdxl\<close> are the same function up to the slot, the
  configuration key and the pipeline class.
\<close>

definition load_model :: "ModelType \<Rightarrow> world \<Rightarrow> bool outcome \<times> world" where
  "load_model t w =
     (if state (slot w t) = READY then (Return True, w)
      else
        (case unload_all w of
           (Raise e, w1) \<Rightarrow> (Raise e, w1)
         | (Return _, w1) \<Rightarrow>
        (case clear_vram w1 of
           (Raise e, w2) \<Rightarrow> (Raise e, w2)
         | (Return _, w2) \<Rightarrow>
        (case check_vram_budget (required_vram_gb (CONFIG (env w2)) t) w2 of
           (False, w3) \<Rightarrow> (Return False, w3)
         | (True, w3) \<Rightarrow>
        (case from_pretrained (set_state t LOADING w3) of
           (Return h, w4) \<Rightarrow>
             (Return True,
              snd (get_vram_info
                (inc_load_count t (set_state t READY (set_pipeline t (Some h) w4)))))
         | (Raise e, w4) \<Rightarrow>
             (case clear_vram (set_pipeline t None (set_state t ERROR w4)) of
                (Raise e', w5) \<Rightarrow> (Raise e', w5)
              | (Return _, w5) \<Rightarrow> (Return False, w5)))))))"

definition load_instantmesh :: "world \<Rightarrow> bool outcome \<times> world" where
  "load_instantmesh = load_model INSTANTMESH"

definition load_sdxl :: "world \<Rightarrow> bool outcome \<times> world" where
  "load_sdxl = load_model SDXL"

subsection \<open>Results\<close>

text \<open>The dictionaries the generation functions return; an absent key is \<open>None\<close>.\<close>

record result_base =
  success :: bool
  error :: "string option"
  vram_after :: "vram_info option"

record generation_result = result_base +
  output_path :: "string option"
  generation_time :: "real option"
  width :: "int option"
  height :: "int option"
  file_size_bytes :: "nat option"

record pipeline_result = result_base +
  stage :: "string option"
  stages_image :: "generation_result option"
  stages_mesh :: "generation_result option"
  total_time :: "real option"
  image_path :: "string option"
  mesh_path :: "string option"

text \<open>\<open>{'success': False, 'error': msg}\<close>.\<close>

definition failed :: "string \<Rightarrow> generation_result" where
  "failed msg =
     \<lparr>success = False, error = Some msg, vram_after = None, output_path = None,
      generation_time = None, width = None, height = None, file_size_bytes = None\<rparr>"

text \<open>
  Python's \<open>round(x, 2)\<close>: to the nearest hundredth, a tie to the even one. The clock
  and the elapsed times are kept as exact reals: the rounding of the arithmetic on times
  to binary64 is not modelled.
\<close>

definition round2 :: "real \<Rightarrow> real" where
  "round2 x = of_int (round_half_even (x * 100)) / 100"

subsection \<open>Generation\<close>

text \<open>
  \<open>pipeline = info['pipeline']\<close> followed by \<open>pipeline(...)\<close>: calling \<open>None\<close> is a
  TypeError; the call itself raises or gives the output object.
\<close>

definition call_pipeline :: "ModelType \<Rightarrow> world \<Rightarrow> pipeline_output outcome \<times> world" where
  "call_pipeline t w =
     (case pipeline (slot w t) of
        None \<Rightarrow> (Raise ''NoneType object is not callable'', w)
      | Some h \<Rightarrow>
          (case raises (env w) (ticks w) of
             None \<Rightarrow> (Return (output_at (env w) (ticks w)), tick w)
           | Some e \<Rightarrow> (Raise e, tick w)))"

text \<open>
  Lines 350 to 365 of generate\_mesh: the output directory is made, then the shape of the
  output decides how the mesh is exported. \<open>Return False\<close> is the branch that returns
  "Model output format not recognized".
\<close>

definition export_mesh :: "pipeline_output \<Rightarrow> world \<Rightarrow> bool outcome \<times> world" where
  "export_mesh result w =
     (case external w of
        (Raise e, w1) \<Rightarrow> (Raise e, w1)
      | (Return _, w1) \<Rightarrow>
          (if meshes result \<noteq> None \<and> meshes result \<noteq> Some [] then
             (case external w1 of (Raise e, w2) \<Rightarrow> (Raise e, w2)
                                | (Return _, w2) \<Rightarrow> (Return True, w2))
           else if mesh result \<noteq> None then
             (case external w1 of (Raise e, w2) \<Rightarrow> (Raise e, w2)
                                | (Return _, w2) \<Rightarrow> (Return True, w2))
           else
             (case external w1 of
                (Raise e, w2) \<Rightarrow> (Raise e, w2)
              | (Return _, w2) \<Rightarrow>
                  (if vertices result \<noteq> None \<and> faces result \<noteq> None then
                     (case external w2 of (Raise e, w3) \<Rightarrow> (Raise e, w3)
                                        | (Return _, w3) \<Rightarrow> (Return True, w3))
                   else (Return False, w2)))))"

text \<open>
  Lines 335 to 365 of generate\_mesh: the image is opened and resized, the pipeline is
  called, the mesh is exported.
\<close>

definition run_instantmesh :: "world \<Rightarrow> bool outcome \<times> world" where
  "run_instantmesh w =
     (case external w of
        (Raise e, w1) \<Rightarrow> (Raise e, w1)
      | (Return _, w1) \<Rightarrow>
     (case call_pipeline INSTANTMESH w1 of
        (Raise e, w2) \<Rightarrow> (Raise e, w2)
      | (Return result, w2) \<Rightarrow> export_mesh result w2))"

text \<open>
  \<open>image = result.images[0]\<close> and saving it: a missing attribute or an empty list raises.
\<close>

definition save_image :: "pipeline_output \<Rightarrow> world \<Rightarrow> unit outcome \<times> world" where
  "save_image result w =
     (case images result of
        None \<Rightarrow> (Raise ''object has no attribute images'', w)
      | Some [] \<Rightarrow> (Raise ''list index out of range'', w)
      | Some (i # _) \<Rightarrow> external w)"

text \<open>Lines 422 to 435 of generate\_image: the pipeline is called, the image is saved.\<close>

definition run_sdxl :: "world \<Rightarrow> unit outcome \<times> world" where
  "run_sdxl w =
     (case call_pipeline SDXL w of
        (Raise e, w1) \<Rightarrow> (Raise e, w1)
      | (Return result, w1) \<Rightarrow> save_image result w1)"

text \<open>\<open>output_path.stat().st_size\<close>.\<close>

definition stat_size :: "world \<Rightarrow> nat outcome \<times> world" where
  "stat_size w =
     (case raises (env w) (ticks w) of
        None \<Rightarrow> (Return (size_at (env w) (ticks w)), tick w)
      | Some e \<Rightarrow> (Raise e, tick w))"

definition count_generation :: "real \<Rightarrow> world \<Rightarrow> world" where
  "count_generation elapsed w =
     w\<lparr>mgr := (mgr w)\<lparr>generation_count := generation_count (mgr w) + 1,
                      total_generation_time := total_generation_time (mgr w) + elapsed\<rparr>\<rparr>"

text \<open>
  The common tail of generate\_mesh (lines 367 to 383) and generate\_image (lines 437 to
  455): the counters, the slot back to READY, the reclamation pass, the probe and the size
  of the file. It gives the elapsed time, the probe and the size.
\<close>

definition finish_generation ::
    "ModelType \<Rightarrow> real \<Rightarrow> world \<Rightarrow> (real \<times> vram_info \<times> nat) outcome \<times> world" where
  "finish_generation t start w =
     (case now w of (stop, w1) \<Rightarrow>
     (case clear_vram (set_state t READY (count_generation (stop - start) w1)) of
        (Raise e, w2) \<Rightarrow> (Raise e, w2)
      | (Return _, w2) \<Rightarrow>
     (case get_vram_info w2 of (v, w3) \<Rightarrow>
     (case stat_size w3 of
        (Raise e, w4) \<Rightarrow> (Raise e, w4)
      | (Return sz, w4) \<Rightarrow> (Return (stop - start, v, sz), w4)))))"

text \<open>
  The head of both generation functions: \<open>if info['state'] != ModelState.READY\<close> the
  model is loaded, and the value of the load decides whether to go on.
\<close>

definition ensure_loaded :: "ModelType \<Rightarrow> world \<Rightarrow> bool outcome \<times> world" where
  "ensure_loaded t w = (if state (slot w t) \<noteq> READY then load_model t w else (Return True, w))"

text \<open>The \<open>except Exception\<close> handler of both generation functions.\<close>

definition recover :: "ModelType \<Rightarrow> string \<Rightarrow> world \<Rightarrow> generation_result outcome \<times> world" where
  "recover t e w =
     (Return (failed e),
      set_state t (if pipeline (slot w t) \<noteq> None then READY else ERROR) w)"

text \<open>\<open>finally: self._generation_lock.release()\<close>: an exception of the release wins.\<close>

definition finally_release :: "'a outcome \<times> world \<Rightarrow> 'a outcome \<times> world" where
  "finally_release rw =
     (case release (snd rw) of
        (Raise e, w) \<Rightarrow> (Raise e, w)
      | (Return _, w) \<Rightarrow> (fst rw, w))"

definition generate_mesh_try ::
    "string \<Rightarrow> string \<Rightarrow> world \<Rightarrow> generation_result outcome \<times> world" where
  "generate_mesh_try image_data out_path w =
     (case ensure_loaded INSTANTMESH w of
        (Raise e, w1) \<Rightarrow> (Raise e, w1)
      | (Return False, w1) \<Rightarrow> (Return (failed ''Failed to load InstantMesh''), w1)
      | (Return True, w1) \<Rightarrow>
     (case now (set_state INSTANTMESH GENERATING w1) of (start, w2) \<Rightarrow>
     (case run_instantmesh w2 of
        (Raise e, w3) \<Rightarrow> (Raise e, w3)
      | (Return False, w3) \<Rightarrow> (Return (failed ''Model output format not recognized''), w3)
      | (Return True, w3) \<Rightarrow>
     (case finish_generation INSTANTMESH start w3 of
        (Raise e, w4) \<Rightarrow> (Raise e, w4)
      | (Return (elapsed, v, sz), w4) \<Rightarrow>
          (Return \<lparr>success = True, error = None, vram_after = Some v,
                   output_path = Some out_path, generation_time = Some (round2 elapsed),
                   width = None, height = None, file_size_bytes = Some sz\<rparr>, w4)))))"

definition generate_mesh ::
    "string \<Rightarrow> string \<Rightarrow> world \<Rightarrow> generation_result outcome \<times> world" where
  "generate_mesh image_data out_path w =
     (case try_acquire (emit (Enter ''generate_mesh'') w) of
        (False, w1) \<Rightarrow> (Return (failed ''Another generation is in progress''), w1)
      | (True, w1) \<Rightarrow>
          finally_release
            (case generate_mesh_try image_data out_path w1 of
               (Return r, w2) \<Rightarrow> (Return r, w2)
             | (Raise e, w2) \<Rightarrow> recover INSTANTMESH e w2))"

definition generate_image_try ::
    "string \<Rightarrow> string \<Rightarrow> int \<Rightarrow> int \<Rightarrow> int \<Rightarrow> world \<Rightarrow> generation_result outcome \<times> world" where
  "generate_image_try prompt out_path wd ht steps w =
     (case ensure_loaded SDXL w of
        (Raise e, w1) \<Rightarrow> (Raise e, w1)
      | (Return False, w1) \<Rightarrow> (Return (failed ''Failed to load SDXL''), w1)
      | (Return True, w1) \<Rightarrow>
     (case now (set_state SDXL GENERATING w1) of (start, w2) \<Rightarrow>
     (case run_sdxl w2 of
        (Raise e, w3) \<Rightarrow> (Raise e, w3)
      | (Return _, w3) \<Rightarrow>
     (case finish_generation SDXL start w3 of
        (Raise e, w4) \<Rightarrow> (Raise e, w4)
      | (Return (elapsed, v, sz), w4) \<Rightarrow>
          (Return \<lparr>success = True, error = None, vram_after = Some v,
                   output_path = Some out_path, generation_time = Some (round2 elapsed),
                   width = Some wd, height = Some ht, file_size_bytes = Some sz\<rparr>, w4)))))"

definition generate_image ::
    "string \<Rightarrow> string \<Rightarrow> int \<Rightarrow> int \<Rightarrow> int \<Rightarrow> world \<Rightarrow> generation_result outcome \<times> world" where
  "generate_image prompt out_path wd ht steps w =
     (case try_acquire (emit (Enter ''generate_image'') w) of
        (False, w1) \<Rightarrow> (Return (failed ''Another generation is in progress''), w1)
      | (True, w1) \<Rightarrow>
          finally_release
            (case generate_image_try prompt out_path wd ht steps w1 of
               (Return r, w2) \<Rightarrow> (Return r, w2)
             | (Raise e, w2) \<Rightarrow> recover SDXL e w2))"

subsection \<open>The two-stage pipeline\<close>

text \<open>The result of a pipeline that stopped at a failed stage.\<close>

definition stage_failed ::
    "string \<Rightarrow> string \<Rightarrow> generation_result \<Rightarrow> generation_result option \<Rightarrow>
     generation_result option \<Rightarrow> pipeline_result" where
  "stage_failed name msg r img msh =
     \<lparr>success = False,
      error = Some (msg @ (case error r of None \<Rightarrow> ''None'' | Some e \<Rightarrow> e)),
      vram_after = None, stage = Some name, stages_image = img, stages_mesh = msh,
      total_time = None, image_path = None, mesh_path = None\<rparr>"

definition pipeline_failed :: "string \<Rightarrow> string \<Rightarrow> pipeline_result" where
  "pipeline_failed msg name =
     \<lparr>success = False, error = Some msg, vram_after = None, stage = Some name,
      stages_image = None, stages_mesh = None, total_time = None, image_path = None,
      mesh_path = None\<rparr>"

text \<open>
  A stage of the pipeline: the lock is released, the stage runs and takes the lock by
  itself, and the lock is taken again with a blocking \<open>acquire()\<close>. \<open>None\<close>: that
  acquire never returns.
\<close>

definition unlocked ::
    "(world \<Rightarrow> generation_result outcome \<times> world) \<Rightarrow> world \<Rightarrow>
     (generation_result outcome \<times> world) option" where
  "unlocked stage_fn w =
     (case release w of
        (Raise e, w1) \<Rightarrow> Some (Raise e, w1)
      | (Return _, w1) \<Rightarrow>
     (case stage_fn w1 of
        (Raise e, w2) \<Rightarrow> Some (Raise e, w2)
      | (Return r, w2) \<Rightarrow>
     (case acquire_blocking w2 of
        None \<Rightarrow> None
      | Some w3 \<Rightarrow> Some (Return r, w3))))"

text \<open>Lines 522 to 531: the result of a pipeline whose two stages succeeded.\<close>

definition pipeline_success ::
    "string \<Rightarrow> real \<Rightarrow> generation_result \<Rightarrow> generation_result \<Rightarrow> world \<Rightarrow>
     pipeline_result outcome \<times> world" where
  "pipeline_success output_dir total_start stage1 stage2 w =
     (case now w of (stop, w1) \<Rightarrow>
     (case get_vram_info w1 of (v, w2) \<Rightarrow>
        (Return \<lparr>success = True, error = None, vram_after = Some v, stage = None,
                 stages_image = Some stage1, stages_mesh = Some stage2,
                 total_time = Some (round2 (stop - total_start)),
                 image_path = Some (output_dir @ ''/generated_image.png''),
                 mesh_path = Some (output_dir @ ''/generated_mesh.glb'')\<rparr>, w2)))"

text \<open>Lines 507 to 531: the second stage and what follows it.\<close>

definition mesh_stage ::
    "string \<Rightarrow> real \<Rightarrow> generation_result \<Rightarrow> world \<Rightarrow>
     (pipeline_result outcome \<times> world) option" where
  "mesh_stage output_dir total_start stage1 w =
     (case unlocked (generate_mesh (output_dir @ ''/generated_image.png'')
                                   (output_dir @ ''/generated_mesh.glb'')) w of
        None \<Rightarrow> None
      | Some (Raise e, w1) \<Rightarrow> Some (Raise e, w1)
      | Some (Return stage2, w1) \<Rightarrow>
          (if \<not> success stage2 then
             Some (Return (stage_failed ''mesh'' ''Mesh generation failed: '' stage2
                             (Some stage1) (Some stage2)), w1)
           else Some (pipeline_success output_dir total_start stage1 stage2 w1)))"

text \<open>The \<open>try\<close> block of generate\_full\_pipeline.\<close>

definition generate_full_pipeline_try ::
    "string \<Rightarrow> string \<Rightarrow> int \<Rightarrow> world \<Rightarrow> (pipeline_result outcome \<times> world) option" where
  "generate_full_pipeline_try prompt output_dir steps w =
     (case external w of
        (Raise e, w1) \<Rightarrow> Some (Raise e, w1)
      | (Return _, w1) \<Rightarrow>
     (case now w1 of (total_start, w2) \<Rightarrow>
     (case unlocked (generate_image prompt (output_dir @ ''/generated_image.png'')
                                    1024 1024 steps) w2 of
        None \<Rightarrow> None
      | Some (Raise e, w3) \<Rightarrow> Some (Raise e, w3)
      | Some (Return stage1, w3) \<Rightarrow>
          (if \<not> success stage1 then
             Some (Return (stage_failed ''image'' ''Image generation failed: '' stage1
                             (Some stage1) None), w3)
           else mesh_stage output_dir total_start stage1 w3))))"

text \<open>
  \<open>finally: try: release() except RuntimeError: pass\<close>: the lock is released when it is
  held, and nothing happens when it is not.
\<close>

definition release_quietly :: "world \<Rightarrow> world" where
  "release_quietly w = snd (release w)"

definition generate_full_pipeline ::
    "string \<Rightarrow> string \<Rightarrow> int \<Rightarrow> world \<Rightarrow> (pipeline_result \<times> world) option" where
  "generate_full_pipeline prompt output_dir steps w =
     (case try_acquire (emit (Enter ''generate_full_pipeline'') w) of
        (False, w1) \<Rightarrow>
          Some (pipeline_failed ''Another generation is in progress'' ''blocked'', w1)
      | (True, w1) \<Rightarrow>
          (case generate_full_pipeline_try prompt output_dir steps w1 of
             None \<Rightarrow> None
           | Some (Return r, w2) \<Rightarrow> Some (r, release_quietly w2)
           | Some (Raise e, w2) \<Rightarrow> Some (pipeline_failed e ''unknown'', release_quietly w2)))"

subsection \<open>Runs\<close>

text \<open>
  A caller issues calls one after the other; an exception that leaves a call is the
  caller's business and the manager goes on from the state the call left.
\<close>

datatype command =
    LoadInstantmesh
  | LoadSdxl
  | UnloadModel ModelType
  | UnloadAll
  | Shutdown
  | GenerateMesh string string
  | GenerateImage string string int int int
  | GenerateFullPipeline string string int
  | GetStatus

fun exec :: "command \<Rightarrow> world \<Rightarrow> world option" where
  "exec LoadInstantmesh w = Some (snd (load_instantmesh w))"
| "exec LoadSdxl w = Some (snd (load_sdxl w))"
| "exec (UnloadModel t) w = Some (snd (unload_model t w))"
| "exec UnloadAll w = Some (snd (unload_all w))"
| "exec Shutdown w = Some (snd (shutdown w))"
| "exec (GenerateMesh i p) w = Some (snd (generate_mesh i p w))"
| "exec (GenerateImage q p wd ht n) w = Some (snd (generate_image q p wd ht n w))"
| "exec (GenerateFullPipeline q d n) w = map_option snd (generate_full_pipeline q d n w)"
| "exec GetStatus w = Some (snd (get_status w))"

fun run :: "command list \<Rightarrow> world \<Rightarrow> world option" where
  "run [] w = Some w"
| "run (c # cs) w = (case exec c w of None \<Rightarrow> None | Some w1 \<Rightarrow> run cs w1)"

subsection \<open>Observations on a trace\<close>

fun snapshots :: "event list \<Rightarrow> (ModelType \<Rightarrow> model_info) list" where
  "snapshots [] = []"
| "snapshots (Slots s # es) = s # snapshots es"
| "snapshots (_ # es) = snapshots es"

fun acquisitions :: "event list \<Rightarrow> event list" where
  "acquisitions [] = []"
| "acquisitions (TryAcquire b # es) = TryAcquire b # acquisitions es"
| "acquisitions (AcquireBlocking # es) = AcquireBlocking # acquisitions es"
| "acquisitions (_ # es) = acquisitions es"

fun entries :: "string \<Rightarrow> event list \<Rightarrow> nat" where
  "entries name [] = 0"
| "entries name (Enter n # es) = (if n = name then Suc (entries name es) else entries name es)"
| "entries name (_ # es) = entries name es"

fun verdicts :: "event list \<Rightarrow> bool list" where
  "verdicts [] = []"
| "verdicts (Budget b # es) = b # verdicts es"
| "verdicts (_ # es) = verdicts es"

subsection \<open>Predicates on slot tables and on pairs of worlds\<close>

definition resident :: "model_info \<Rightarrow> bool" where
  "resident i = (state i = READY \<or> state i = GENERATING)"

definition single_residency :: "(ModelType \<Rightarrow> model_info) \<Rightarrow> bool" where
  "single_residency s = (\<forall>t t'. resident (s t) \<and> resident (s t') \<longrightarrow> t = t')"

definition evicted :: "model_info \<Rightarrow> bool" where
  "evicted i = ((state i = UNLOADED \<or> state i = ERROR) \<and> pipeline i = None)"

definition coupled :: "model_info \<Rightarrow> bool" where
  "coupled i =
     ((pipeline i \<noteq> None \<longrightarrow> state i \<in> {LOADING, READY, GENERATING, UNLOADING}) \<and>
      (resident i \<longrightarrow> pipeline i \<noteq> None))"

definition sound :: "(ModelType \<Rightarrow> model_info) \<Rightarrow> bool" where
  "sound s =
     (coupled (s INSTANTMESH) \<and> coupled (s SDXL) \<and>
      (pipeline (s INSTANTMESH) = None \<or> pipeline (s SDXL) = None))"

definition settled :: "(ModelType \<Rightarrow> model_info) \<Rightarrow> bool" where
  "settled s = (\<forall>t. state (s t) \<noteq> LOADING \<and> state (s t) \<noteq> UNLOADING)"

definition pregood :: "world \<Rightarrow> bool" where
  "pregood w = (sound (slot w) \<and> list_all sound (snapshots (trace w)))"

definition good :: "world \<Rightarrow> bool" where
  "good w = (pregood w \<and> settled (slot w))"

definition kept :: "world \<Rightarrow> world \<Rightarrow> bool" where
  "kept w w' =
     (env w' = env w \<and>
      generation_lock (mgr w') = generation_lock (mgr w) \<and>
      generation_count (mgr w') = generation_count (mgr w) \<and>
      total_generation_time (mgr w') = total_generation_time (mgr w) \<and>
      restart_threshold (mgr w') = restart_threshold (mgr w) \<and>
      vram_buffer_gb (mgr w') = vram_buffer_gb (mgr w) \<and>
      acquisitions (trace w') = acquisitions (trace w) \<and>
      (\<forall>n. entries n (trace w') = entries n (trace w)))"

definition framed :: "world \<Rightarrow> world \<Rightarrow> bool" where
  "framed w w' =
     (env w' = env w \<and>
      generation_lock (mgr w') = generation_lock (mgr w) \<and>
      restart_threshold (mgr w') = restart_threshold (mgr w) \<and>
      vram_buffer_gb (mgr w') = vram_buffer_gb (mgr w) \<and>
      acquisitions (trace w') = acquisitions (trace w) \<and>
      (\<forall>n. entries n (trace w') = entries n (trace w)))"

definition calm :: environment where
  "calm =
     \<lparr>CONFIG = \<lparr>buffer_gb = None, generation_count_before_restart = None,
                instantmesh_required_vram_gb = None, sdxl_required_vram_gb = None\<rparr>,
      raises = (\<lambda>_. None),
      vram_at = (\<lambda>_. \<lparr>available = True, free_gb = 16\<rparr>),
      handle_at = (\<lambda>k. k),
      output_at = (\<lambda>_. \<lparr>images = Some [0], meshes = Some [0], mesh = None,
                          vertices = None, faces = None\<rparr>),
      time_at = (\<lambda>k. real k),
      size_at = (\<lambda>_. 1024)\<rparr>"

definition starved :: environment where
  "starved = calm\<lparr>vram_at := (\<lambda>_. \<lparr>available = True, free_gb = 4\<rparr>)\<rparr>"

definition relock :: "world \<Rightarrow> world" where
  "relock w = emit AcquireBlocking (w\<lparr>mgr := (mgr w)\<lparr>generation_lock := True\<rparr>\<rparr>)"

definition step_ok :: "world \<Rightarrow> world \<Rightarrow> bool" where
  "step_ok w w' =
     (env w' = env w \<and>
      restart_threshold (mgr w') = restart_threshold (mgr w) \<and>
      vram_buffer_gb (mgr w') = vram_buffer_gb (mgr w) \<and>
      generation_count (mgr w) \<le> generation_count (mgr w') \<and>
      (good w \<longrightarrow> good w'))"

text \<open>
  The coupling of handle and state as the specification words it (invariant I2), for one
  slot and for a table.
\<close>

definition handle_state_coupling :: "model_info \<Rightarrow> bool" where
  "handle_state_coupling i =
     ((pipeline i \<noteq> None) =
      (state i = LOADING \<or> state i = READY \<or> state i = GENERATING \<or> state i = UNLOADING))"

definition table_coupling :: "(ModelType \<Rightarrow> model_info) \<Rightarrow> bool" where
  "table_coupling s = (handle_state_coupling (s INSTANTMESH) \<and> handle_state_coupling (s SDXL))"

text \<open>
  A snapshot in which slot \<open>t\<close> is LOADING or READY while slot \<open>t'\<close> has not been
  evicted.
\<close>

definition premature :: "ModelType \<Rightarrow> ModelType \<Rightarrow> (ModelType \<Rightarrow> model_info) \<Rightarrow> bool" where
  "premature t t' s = ((state (s t) = LOADING \<or> state (s t) = READY) \<and> \<not> evicted (s t'))"

definition shapeless :: environment where
  "shapeless =
     calm\<lparr>output_at := (\<lambda>_. \<lparr>images = None, meshes = None, mesh = None,
                                vertices = None, faces = None\<rparr>)\<rparr>"

definition flaky :: environment where
  "flaky = calm\<lparr>raises := (\<lambda>k. if k = 0 then None else Some ''CUDA out of memory'')\<rparr>"

text \<open>The successful calls of generate\_mesh and generate\_image that a caller makes in a run.\<close>

fun succeeded :: "generation_result outcome \<Rightarrow> bool" where
  "succeeded (Return r) = success r"
| "succeeded (Raise _) = False"

fun credit :: "command \<Rightarrow> world \<Rightarrow> nat" where
  "credit (GenerateMesh i p) w = (if succeeded (fst (generate_mesh i p w)) then 1 else 0)"
| "credit (GenerateImage q p wd ht n) w =
     (if succeeded (fst (generate_image q p wd ht n w)) then 1 else 0)"
| "credit _ w = 0"

fun successes :: "command list \<Rightarrow> world \<Rightarrow> nat" where
  "successes [] w = 0"
| "successes (c # cs) w =
     credit c w + (case exec c w of None \<Rightarrow> 0 | Some w1 \<Rightarrow> successes cs w1)"

definition eager :: environment where
  "eager = calm\<lparr>CONFIG := (CONFIG calm)\<lparr>generation_count_before_restart := Some 1\<rparr>\<rparr>"

text \<open>
  A world in which both backends succeed: no external call raises, the probe admits both
  models under the manager's buffer, and every output of a pipeline has an image and a
  mesh in a shape generate\_mesh recognises.
\<close>

definition recognised :: "pipeline_output \<Rightarrow> bool" where
  "recognised r =
     (meshes r \<noteq> None \<and> meshes r \<noteq> Some [] \<or> mesh r \<noteq> None \<or>
      vertices r \<noteq> None \<and> faces r \<noteq> None)"

definition willing :: "world \<Rightarrow> bool" where
  "willing w =
     ((\<forall>k. raises (env w) k = None) \<and>
      (\<forall>k t. budget_ok (vram_at (env w) k) (required_vram_gb (CONFIG (env w)) t)
                (vram_buffer_gb (mgr w))) \<and>
      (\<forall>k. recognised (output_at (env w) k) \<and> images (output_at (env w) k) \<noteq> None \<and>
           images (output_at (env w) k) \<noteq> Some []))"


section \<open>Basic facts\<close>

lemma emit_simps [simp]:
  "mgr (emit e w) = mgr w" "env (emit e w) = env w" "ticks (emit e w) = ticks w"
  "trace (emit e w) = trace w @ [e]"
  by (simp_all add: emit_def)

lemma tick_simps [simp]:
  "mgr (tick w) = mgr w" "env (tick w) = env w" "ticks (tick w) = Suc (ticks w)"
  "trace (tick w) = trace w"
  by (simp_all add: tick_def)

lemma update_slot_simps [simp]:
  "mgr (update_slot t f w) = (mgr w)\<lparr>models := (models (mgr w))(t := f (models (mgr w) t))\<rparr>"
  "env (update_slot t f w) = env w" "ticks (update_slot t f w) = ticks w"
  "trace (update_slot t f w) = trace w @ [Slots ((models (mgr w))(t := f (models (mgr w) t)))]"
  by (simp_all add: update_slot_def)

lemma snapshots_append [simp]: "snapshots (xs @ ys) = snapshots xs @ snapshots ys"
  by (induction xs rule: snapshots.induct) simp_all

lemma acquisitions_append [simp]: "acquisitions (xs @ ys) = acquisitions xs @ acquisitions ys"
  by (induction xs rule: acquisitions.induct) simp_all

lemma entries_append [simp]: "entries n (xs @ ys) = entries n xs + entries n ys"
  by (induction n xs rule: entries.induct) simp_all

lemma verdicts_append [simp]: "verdicts (xs @ ys) = verdicts xs @ verdicts ys"
  by (induction xs rule: verdicts.induct) simp_all

lemma external_eq: "external w = (r, w') \<Longrightarrow> w' = tick w"
  by (auto simp: external_def split: option.splits)

lemma clear_vram_eq: "clear_vram w = (r, w') \<Longrightarrow> w' = tick w"
  by (auto simp: clear_vram_def dest: external_eq)

lemma budget:
  "budget_ok v r b =
     (\<not> available v \<or>
      \<not> float_less (float_of (free_gb v)) (float_add (float_of r) (float_of b)))"
  by (simp add: budget_ok_def)

lemmas float_defs =
  float_of_def nearest_def exponent_def pow2_def round_half_even_def bit_length.simps

lemma budget_evals:
  "budget_ok \<lparr>available = True, free_gb = 16\<rparr> 6 2"
  "budget_ok \<lparr>available = True, free_gb = 16\<rparr> 8 2"
  "\<not> budget_ok \<lparr>available = True, free_gb = 4\<rparr> 6 2"
  "\<not> budget_ok \<lparr>available = True, free_gb = 4\<rparr> 8 2"
  by (simp_all add: budget_ok_def float_defs)

lemma set_state_simps [simp]:
  "state (slot (set_state t x w) t') = (if t' = t then x else state (slot w t'))"
  "pipeline (slot (set_state t x w) t') = pipeline (slot w t')"
  "load_count (slot (set_state t x w) t') = load_count (slot w t')"
  "generation_lock (mgr (set_state t x w)) = generation_lock (mgr w)"
  "generation_count (mgr (set_state t x w)) = generation_count (mgr w)"
  "total_generation_time (mgr (set_state t x w)) = total_generation_time (mgr w)"
  "restart_threshold (mgr (set_state t x w)) = restart_threshold (mgr w)"
  "vram_buffer_gb (mgr (set_state t x w)) = vram_buffer_gb (mgr w)"
  "t' \<noteq> t \<Longrightarrow> slot (set_state t x w) t' = slot w t'"
  "env (set_state t x w) = env w"
  "ticks (set_state t x w) = ticks w"
  "snapshots (trace (set_state t x w)) = snapshots (trace w) @ [slot (set_state t x w)]"
  "acquisitions (trace (set_state t x w)) = acquisitions (trace w)"
  "entries n (trace (set_state t x w)) = entries n (trace w)"
  "verdicts (trace (set_state t x w)) = verdicts (trace w)"
  by (simp_all add: set_state_def fun_upd_def)

lemma set_pipeline_simps [simp]:
  "state (slot (set_pipeline t p w) t') = state (slot w t')"
  "pipeline (slot (set_pipeline t p w) t') = (if t' = t then p else pipeline (slot w t'))"
  "load_count (slot (set_pipeline t p w) t') = load_count (slot w t')"
  "generation_lock (mgr (set_pipeline t p w)) = generation_lock (mgr w)"
  "generation_count (mgr (set_pipeline t p w)) = generation_count (mgr w)"
  "total_generation_time (mgr (set_pipeline t p w)) = total_generation_time (mgr w)"
  "restart_threshold (mgr (set_pipeline t p w)) = restart_threshold (mgr w)"
  "vram_buffer_gb (mgr (set_pipeline t p w)) = vram_buffer_gb (mgr w)"
  "t' \<noteq> t \<Longrightarrow> slot (set_pipeline t p w) t' = slot w t'"
  "env (set_pipeline t p w) = env w"
  "ticks (set_pipeline t p w) = ticks w"
  "snapshots (trace (set_pipeline t p w)) = snapshots (trace w) @ [slot (set_pipeline t p w)]"
  "acquisitions (trace (set_pipeline t p w)) = acquisitions (trace w)"
  "entries n (trace (set_pipeline t p w)) = entries n (trace w)"
  "verdicts (trace (set_pipeline t p w)) = verdicts (trace w)"
  by (simp_all add: set_pipeline_def fun_upd_def)

lemma inc_load_count_simps [simp]:
  "state (slot (inc_load_count t w) t') = state (slot w t')"
  "pipeline (slot (inc_load_count t w) t') = pipeline (slot w t')"
  "load_count (slot (inc_load_count t w) t') =
     (if t' = t then load_count (slot w t) + 1 else load_count (slot w t'))"
  "generation_lock (mgr (inc_load_count t w)) = generation_lock (mgr w)"
  "generation_count (mgr (inc_load_count t w)) = generation_count (mgr w)"
  "total_generation_time (mgr (inc_load_count t w)) = total_generation_time (mgr w)"
  "restart_threshold (mgr (inc_load_count t w)) = restart_threshold (mgr w)"
  "vram_buffer_gb (mgr (inc_load_count t w)) = vram_buffer_gb (mgr w)"
  "t' \<noteq> t \<Longrightarrow> slot (inc_load_count t w) t' = slot w t'"
  "env (inc_load_count t w) = env w"
  "ticks (inc_load_count t w) = ticks w"
  "snapshots (trace (inc_load_count t w)) = snapshots (trace w) @ [slot (inc_load_count t w)]"
  "acquisitions (trace (inc_load_count t w)) = acquisitions (trace w)"
  "entries n (trace (inc_load_count t w)) = entries n (trace w)"
  "verdicts (trace (inc_load_count t w)) = verdicts (trace w)"
  by (simp_all add: inc_load_count_def fun_upd_def)

lemma all_ModelType: "(\<forall>t. P t) = (P INSTANTMESH \<and> P SDXL)"
  by (metis ModelType.exhaust)

lemma pregood_tick [simp]: "pregood (tick w) = pregood w"
  by (simp add: pregood_def)

lemma pregood_emit [simp]: "snapshots [e] = [] \<Longrightarrow> pregood (emit e w) = pregood w"
  by (simp add: pregood_def)

lemma pregood_set_state:
  "pregood w \<Longrightarrow> (x = UNLOADED \<or> x = ERROR \<longrightarrow> pipeline (slot w t) = None) \<Longrightarrow>
   (x = READY \<or> x = GENERATING \<longrightarrow> pipeline (slot w t) \<noteq> None) \<Longrightarrow>
   pregood (set_state t x w)"
  unfolding pregood_def sound_def coupled_def resident_def
  by (cases t; cases x; simp)

lemma pregood_set_pipeline_None:
  "pregood w \<Longrightarrow> \<not> resident (slot w t) \<Longrightarrow> pregood (set_pipeline t None w)"
  unfolding pregood_def sound_def coupled_def resident_def
  by (cases t; simp)

lemma pregood_set_pipeline_Some:
  "pregood w \<Longrightarrow> state (slot w t) = LOADING \<Longrightarrow> \<forall>t'. t' \<noteq> t \<longrightarrow> pipeline (slot w t') = None \<Longrightarrow>
   pregood (set_pipeline t (Some h) w)"
  unfolding pregood_def sound_def coupled_def resident_def
  by (cases t; simp add: all_ModelType)

lemma pregood_inc_load_count: "pregood w \<Longrightarrow> pregood (inc_load_count t w)"
  unfolding pregood_def sound_def coupled_def resident_def
  by (cases t; simp)

lemma kept_refl [simp]: "kept w w"
  by (simp add: kept_def)

lemma kept_trans: "kept w w1 \<Longrightarrow> kept w1 w2 \<Longrightarrow> kept w w2"
  by (simp add: kept_def)

lemma unload_model_kept: "kept w (snd (unload_model t w))"
  by (simp add: unload_model_def kept_def Let_def clear_vram_def external_def
      split: option.splits)

lemma unload_model_others:
  "t' \<noteq> t \<Longrightarrow> slot (snd (unload_model t w)) t' = slot w t'"
  by (simp add: unload_model_def Let_def clear_vram_def external_def split: option.splits)

lemma unload_model_evicted:
  "coupled (slot w t) \<Longrightarrow> evicted (slot (snd (unload_model t w)) t)"
  by (auto simp: unload_model_def Let_def clear_vram_def external_def coupled_def evicted_def
      split: option.splits)

lemma unload_model_pregood:
  "pregood w \<Longrightarrow> pregood (snd (unload_model t w))"
  by (auto simp: unload_model_def Let_def clear_vram_def external_def resident_def
      split: option.splits
      intro!: pregood_set_state pregood_set_pipeline_None)

lemma unload_model_settled:
  "settled (slot w) \<Longrightarrow> settled (slot (snd (unload_model t w)))"
  by (auto simp: unload_model_def Let_def clear_vram_def external_def settled_def
      split: option.splits)

lemma unload_model_evicted_stays:
  "evicted (slot w t') \<Longrightarrow> evicted (slot (snd (unload_model t w)) t')"
proof (cases "t' = t")
  case True
  assume "evicted (slot w t')"
  then have "coupled (slot w t)"
    using True by (auto simp: coupled_def evicted_def resident_def)
  then show ?thesis using True by (simp add: unload_model_evicted)
next
  case False
  assume "evicted (slot w t')"
  then show ?thesis using False by (simp add: unload_model_others)
qed

lemma unload_model_Raise:
  "fst (unload_model t w) = Raise e \<Longrightarrow> state (slot (snd (unload_model t w)) t) = ERROR"
  by (auto simp: unload_model_def Let_def clear_vram_def external_def
      split: option.splits if_splits)

lemma unload_all_unfold:
  "unload_all w =
     (case unload_model INSTANTMESH w of
        (Raise e, w1) \<Rightarrow> (Raise e, w1)
      | (Return _, w1) \<Rightarrow> unload_model SDXL w1)"
  by (simp add: unload_all_def all_models_def split: prod.splits outcome.splits)

lemma unload_all_kept: "kept w (snd (unload_all w))"
  using unload_model_kept [of w INSTANTMESH]
    unload_model_kept [of "snd (unload_model INSTANTMESH w)" SDXL]
  by (auto simp: unload_all_unfold split: prod.splits outcome.splits intro: kept_trans)

lemma unload_all_pregood: "pregood w \<Longrightarrow> pregood (snd (unload_all w))"
  using unload_model_pregood [of w INSTANTMESH]
    unload_model_pregood [of "snd (unload_model INSTANTMESH w)" SDXL]
  by (auto simp: unload_all_unfold split: prod.splits outcome.splits)

lemma unload_all_settled: "settled (slot w) \<Longrightarrow> settled (slot (snd (unload_all w)))"
  using unload_model_settled [of w INSTANTMESH]
    unload_model_settled [of "snd (unload_model INSTANTMESH w)" SDXL]
  by (auto simp: unload_all_unfold split: prod.splits outcome.splits)

lemma unload_all_evicted:
  assumes "sound (slot w)" and "fst (unload_all w) = Return u"
  shows "evicted (slot (snd (unload_all w)) t)"
proof -
  obtain r1 w1 where u1: "unload_model INSTANTMESH w = (r1, w1)"
    by (cases "unload_model INSTANTMESH w")
  with assms(2) obtain v where r1: "r1 = Return v"
    by (cases r1) (auto simp: unload_all_unfold)
  have all: "unload_all w = unload_model SDXL w1"
    using u1 r1 by (simp add: unload_all_unfold)
  have e1: "evicted (slot w1 INSTANTMESH)"
    using unload_model_evicted [of w INSTANTMESH] assms(1) u1 by (simp add: sound_def)
  have c2: "coupled (slot w1 SDXL)"
    using unload_model_others [of SDXL INSTANTMESH w] assms(1) u1 by (simp add: sound_def)
  show ?thesis
  proof (cases t)
    case INSTANTMESH
    then show ?thesis using unload_model_evicted_stays [OF e1, of SDXL] all by simp
  next
    case SDXL
    then show ?thesis using unload_model_evicted [OF c2] all by simp
  qed
qed

lemma get_vram_info_simps [simp]:
  "fst (get_vram_info w) = vram_at (env w) (ticks w)" "snd (get_vram_info w) = tick w"
  by (simp_all add: get_vram_info_def)

lemma check_vram_budget_simps [simp]:
  "fst (check_vram_budget g w) = budget_ok (vram_at (env w) (ticks w)) g (vram_buffer_gb (mgr w))"
  "snd (check_vram_budget g w) =
     emit (Budget (budget_ok (vram_at (env w) (ticks w)) g (vram_buffer_gb (mgr w)))) (tick w)"
  by (simp_all add: check_vram_budget_def get_vram_info_def)

lemma load_model_Ready: "state (slot w t) = READY \<Longrightarrow> load_model t w = (Return True, w)"
  by (simp add: load_model_def)

lemma external_snd [simp]:
  "snd (external w) = tick w" "snd (clear_vram w) = tick w" "snd (from_pretrained w) = tick w"
  "snd (stat_size w) = tick w" "snd (now w) = tick w"
  by (simp_all add: external_def clear_vram_def from_pretrained_def stat_size_def now_def
      split: option.splits)

lemma kept_steps [simp]:
  "kept w (tick w1) = kept w w1"
  "kept w (set_state t x w1) = kept w w1"
  "kept w (set_pipeline t p w1) = kept w w1"
  "kept w (inc_load_count t w1) = kept w w1"
  "kept w (emit (Budget b) w1) = kept w w1"
  by (simp_all add: kept_def)

lemma load_model_kept: "kept w (snd (load_model t w))"
  using unload_all_kept [of w]
  by (simp add: load_model_def case_prod_unfold split: outcome.splits bool.splits)

lemma evicted_simps:
  "evicted i \<Longrightarrow> pipeline i = None"
  "evicted i \<Longrightarrow> state i \<noteq> LOADING"
  "evicted i \<Longrightarrow> state i \<noteq> UNLOADING"
  "evicted i \<Longrightarrow> state i \<noteq> READY"
  "evicted i \<Longrightarrow> state i \<noteq> GENERATING"
  by (auto simp: evicted_def)

lemma load_model_pregood:
  assumes "pregood w"
  shows "pregood (snd (load_model t w))"
proof -
  have p: "pregood (snd (unload_all w))"
    using assms by (rule unload_all_pregood)
  have e: "\<And>u t'. fst (unload_all w) = Return u \<Longrightarrow> pipeline (slot (snd (unload_all w)) t') = None"
    using assms unload_all_evicted [of w] by (simp add: pregood_def evicted_def)
  show ?thesis
    using assms p e
    by (auto simp: load_model_def case_prod_unfold resident_def
        split: outcome.splits bool.splits
        intro!: pregood_inc_load_count pregood_set_state pregood_set_pipeline_Some
          pregood_set_pipeline_None)
qed

lemma load_model_settled:
  assumes "sound (slot w)" "settled (slot w)"
  shows "settled (slot (snd (load_model t w)))"
proof -
  have p: "settled (slot (snd (unload_all w)))"
    using assms(2) by (rule unload_all_settled)
  show ?thesis
    using assms p
    by (auto simp: load_model_def case_prod_unfold settled_def
        split: outcome.splits bool.splits)
qed

lemma load_model_True:
  "fst (load_model t w) = Return True \<Longrightarrow> state (slot (snd (load_model t w)) t) = READY"
  by (auto simp: load_model_def case_prod_unfold split: outcome.splits bool.splits if_splits)

lemma load_model_evicts:
  assumes "sound (slot w)" "state (slot w t) \<noteq> READY" "fst (load_model t w) = Return b"
    and "t' \<noteq> t"
  shows "evicted (slot (snd (load_model t w)) t')"
proof -
  have e: "\<And>u. fst (unload_all w) = Return u \<Longrightarrow> evicted (slot (snd (unload_all w)) t')"
    using assms(1) by (rule unload_all_evicted)
  show ?thesis
    using assms(2,3,4) e
    by (auto simp: load_model_def case_prod_unfold evicted_def
        split: outcome.splits bool.splits if_splits)
qed

lemma pregood_cong: "mgr w' = mgr w \<Longrightarrow> trace w' = trace w \<Longrightarrow> pregood w' = pregood w"
  by (simp add: pregood_def)

lemma call_pipeline_simps [simp]:
  "mgr (snd (call_pipeline t w)) = mgr w" "env (snd (call_pipeline t w)) = env w"
  "trace (snd (call_pipeline t w)) = trace w"
  by (simp_all add: call_pipeline_def split: option.splits)

lemma call_pipeline_None:
  "pipeline (slot w t) = None \<Longrightarrow> \<exists>e. fst (call_pipeline t w) = Raise e"
  by (simp add: call_pipeline_def)

lemma export_mesh_simps [simp]:
  "mgr (snd (export_mesh r w)) = mgr w" "env (snd (export_mesh r w)) = env w"
  "trace (snd (export_mesh r w)) = trace w"
  by (simp_all add: export_mesh_def case_prod_unfold split: outcome.splits)

lemma save_image_simps [simp]:
  "mgr (snd (save_image r w)) = mgr w" "env (snd (save_image r w)) = env w"
  "trace (snd (save_image r w)) = trace w"
  by (simp_all add: save_image_def split: option.splits list.splits)

lemma count_generation_simps [simp]:
  "models (mgr (count_generation e w)) = models (mgr w)"
  "generation_lock (mgr (count_generation e w)) = generation_lock (mgr w)"
  "generation_count (mgr (count_generation e w)) = Suc (generation_count (mgr w))"
  "total_generation_time (mgr (count_generation e w)) = total_generation_time (mgr w) + e"
  "restart_threshold (mgr (count_generation e w)) = restart_threshold (mgr w)"
  "vram_buffer_gb (mgr (count_generation e w)) = vram_buffer_gb (mgr w)"
  "env (count_generation e w) = env w" "ticks (count_generation e w) = ticks w"
  "trace (count_generation e w) = trace w"
  by (simp_all add: count_generation_def)

lemma pregood_helpers [simp]:
  "pregood (snd (call_pipeline t w)) = pregood w"
  "pregood (snd (export_mesh r w)) = pregood w"
  "pregood (snd (save_image r w)) = pregood w"
  "pregood (count_generation e w) = pregood w"
  by (simp_all add: pregood_def)

lemma try_acquire_simps [simp]:
  "fst (try_acquire w) = (\<not> generation_lock (mgr w))"
  "models (mgr (snd (try_acquire w))) = models (mgr w)"
  "generation_lock (mgr (snd (try_acquire w))) = True"
  "generation_count (mgr (snd (try_acquire w))) = generation_count (mgr w)"
  "total_generation_time (mgr (snd (try_acquire w))) = total_generation_time (mgr w)"
  "restart_threshold (mgr (snd (try_acquire w))) = restart_threshold (mgr w)"
  "vram_buffer_gb (mgr (snd (try_acquire w))) = vram_buffer_gb (mgr w)"
  "env (snd (try_acquire w)) = env w" "ticks (snd (try_acquire w)) = ticks w"
  "trace (snd (try_acquire w)) = trace w @ [TryAcquire (\<not> generation_lock (mgr w))]"
  by (simp_all add: try_acquire_def)

lemma try_acquire_held:
  "generation_lock (mgr w) \<Longrightarrow> try_acquire w = (False, emit (TryAcquire False) w)"
  by (simp add: try_acquire_def)

lemma release_simps [simp]:
  "fst (release w) = (if generation_lock (mgr w) then Return () else Raise ''release unlocked lock'')"
  "models (mgr (snd (release w))) = models (mgr w)"
  "generation_lock (mgr (snd (release w))) = False"
  "generation_count (mgr (snd (release w))) = generation_count (mgr w)"
  "total_generation_time (mgr (snd (release w))) = total_generation_time (mgr w)"
  "restart_threshold (mgr (snd (release w))) = restart_threshold (mgr w)"
  "vram_buffer_gb (mgr (snd (release w))) = vram_buffer_gb (mgr w)"
  "env (snd (release w)) = env w" "ticks (snd (release w)) = ticks w"
  "snapshots (trace (snd (release w))) = snapshots (trace w)"
  "acquisitions (trace (snd (release w))) = acquisitions (trace w)"
  "entries n (trace (snd (release w))) = entries n (trace w)"
  "verdicts (trace (snd (release w))) = verdicts (trace w)"
  by (simp_all add: release_def)

lemma acquire_blocking_simps:
  "generation_lock (mgr w) \<Longrightarrow> acquire_blocking w = None"
  "\<not> generation_lock (mgr w) \<Longrightarrow>
     acquire_blocking w = Some (emit AcquireBlocking (w\<lparr>mgr := (mgr w)\<lparr>generation_lock := True\<rparr>\<rparr>))"
  by (simp_all add: acquire_blocking_def)

lemma pregood_lock [simp]:
  "pregood (snd (try_acquire w)) = pregood w"
  "pregood (snd (release w)) = pregood w"
  by (simp_all add: pregood_def)

lemma kept_framed: "kept w w' \<Longrightarrow> framed w w'"
  by (simp add: kept_def framed_def)

lemma framed_refl [simp]: "framed w w"
  by (simp add: framed_def)

lemma framed_steps [simp]:
  "framed w (tick w1) = framed w w1"
  "framed w (set_state t x w1) = framed w w1"
  "framed w (count_generation e w1) = framed w w1"
  "framed w (snd (call_pipeline t w1)) = framed w w1"
  "framed w (snd (export_mesh r w1)) = framed w w1"
  "framed w (snd (save_image r w1)) = framed w w1"
  by (simp_all add: framed_def)

lemma finish_generation_framed [simp]:
  "framed w (snd (finish_generation t start w1)) = framed w w1"
  by (simp add: finish_generation_def case_prod_unfold split: outcome.splits)

lemma finish_generation_count [simp]:
  "generation_count (mgr (snd (finish_generation t start w))) = Suc (generation_count (mgr w))"
  by (simp add: finish_generation_def case_prod_unfold split: outcome.splits)

lemma finish_generation_slot [simp]:
  "state (slot (snd (finish_generation t start w)) t') = (if t' = t then READY else state (slot w t'))"
  "pipeline (slot (snd (finish_generation t start w)) t') = pipeline (slot w t')"
  "load_count (slot (snd (finish_generation t start w)) t') = load_count (slot w t')"
  by (simp_all add: finish_generation_def case_prod_unfold split: outcome.splits)

lemma finish_generation_pregood:
  "pregood w \<Longrightarrow> pipeline (slot w t) \<noteq> None \<Longrightarrow> pregood (snd (finish_generation t start w))"
  by (auto simp: finish_generation_def case_prod_unfold split: outcome.splits
      intro!: pregood_set_state)

lemma sound_READY: "sound s \<Longrightarrow> state (s t) = READY \<Longrightarrow> pipeline (s t) \<noteq> None"
  by (cases t) (auto simp: sound_def coupled_def resident_def)

lemma run_instantmesh_simps [simp]:
  "mgr (snd (run_instantmesh w)) = mgr w" "env (snd (run_instantmesh w)) = env w"
  "trace (snd (run_instantmesh w)) = trace w"
  by (simp_all add: run_instantmesh_def case_prod_unfold split: outcome.splits)

lemma run_sdxl_simps [simp]:
  "mgr (snd (run_sdxl w)) = mgr w" "env (snd (run_sdxl w)) = env w"
  "trace (snd (run_sdxl w)) = trace w"
  by (simp_all add: run_sdxl_def case_prod_unfold split: outcome.splits)

lemma pregood_run [simp]:
  "pregood (snd (run_instantmesh w)) = pregood w"
  "pregood (snd (run_sdxl w)) = pregood w"
  by (simp_all add: pregood_def)

lemma framed_run [simp]:
  "framed w (snd (run_instantmesh w1)) = framed w w1"
  "framed w (snd (run_sdxl w1)) = framed w w1"
  by (simp_all add: framed_def)

lemma ensure_loaded_kept: "kept w (snd (ensure_loaded t w))"
  by (simp add: ensure_loaded_def load_model_kept)

lemma ensure_loaded_pregood: "pregood w \<Longrightarrow> pregood (snd (ensure_loaded t w))"
  by (simp add: ensure_loaded_def load_model_pregood)

lemma ensure_loaded_settled:
  "sound (slot w) \<Longrightarrow> settled (slot w) \<Longrightarrow> settled (slot (snd (ensure_loaded t w)))"
  by (simp add: ensure_loaded_def load_model_settled)

lemma ensure_loaded_True:
  "fst (ensure_loaded t w) = Return True \<Longrightarrow> state (slot (snd (ensure_loaded t w)) t) = READY"
  by (simp add: ensure_loaded_def load_model_True split: if_splits)

lemma generate_mesh_try_framed: "framed w (snd (generate_mesh_try i p w))"
  using kept_framed [OF ensure_loaded_kept [of w INSTANTMESH]]
  by (simp add: generate_mesh_try_def case_prod_unfold
      split: outcome.splits bool.splits)


lemma generate_image_try_framed: "framed w (snd (generate_image_try q p wd ht n w))"
  using kept_framed [OF ensure_loaded_kept [of w SDXL]]
  by (simp add: generate_image_try_def case_prod_unfold
      split: outcome.splits bool.splits)

lemma generate_mesh_try_count:
  "generation_count (mgr w) \<le> generation_count (mgr (snd (generate_mesh_try i p w)))"
  using ensure_loaded_kept [of w INSTANTMESH]
  by (simp add: generate_mesh_try_def case_prod_unfold kept_def
      split: outcome.splits bool.splits)

lemma generate_mesh_try_success:
  "fst (generate_mesh_try i p w) = Return r \<Longrightarrow> success r \<Longrightarrow>
   generation_count (mgr (snd (generate_mesh_try i p w))) = Suc (generation_count (mgr w)) \<and>
   state (slot (snd (generate_mesh_try i p w)) INSTANTMESH) = READY"
  using ensure_loaded_kept [of w INSTANTMESH]
  by (auto simp: generate_mesh_try_def case_prod_unfold kept_def failed_def
      split: outcome.splits bool.splits if_splits)

lemma generate_mesh_try_pregood:
  assumes "pregood w"
  shows "pregood (snd (generate_mesh_try i p w))"
proof -
  have l: "pregood (snd (ensure_loaded INSTANTMESH w))"
    using assms by (rule ensure_loaded_pregood)
  have r: "fst (ensure_loaded INSTANTMESH w) = Return True \<Longrightarrow>
           pipeline (slot (snd (ensure_loaded INSTANTMESH w)) INSTANTMESH) \<noteq> None"
    using ensure_loaded_True [of INSTANTMESH w] l sound_READY by (simp add: pregood_def)
  show ?thesis
    using l r
    by (auto simp: generate_mesh_try_def case_prod_unfold
        split: outcome.splits bool.splits if_splits
        intro!: pregood_set_state finish_generation_pregood)
qed

lemma generate_mesh_try_settled:
  assumes "sound (slot w)" "settled (slot w)"
  shows "settled (slot (snd (generate_mesh_try i p w)))"
proof -
  have l: "settled (slot (snd (ensure_loaded INSTANTMESH w)))"
    using assms by (rule ensure_loaded_settled)
  show ?thesis
    using l
    by (auto simp: generate_mesh_try_def case_prod_unfold settled_def
        split: outcome.splits bool.splits if_splits)
qed


lemma generate_image_try_count:
  "generation_count (mgr w) \<le> generation_count (mgr (snd (generate_image_try q p wd ht n w)))"
  using ensure_loaded_kept [of w SDXL]
  by (simp add: generate_image_try_def case_prod_unfold kept_def
      split: outcome.splits bool.splits)

lemma generate_image_try_success:
  "fst (generate_image_try q p wd ht n w) = Return r \<Longrightarrow> success r \<Longrightarrow>
   generation_count (mgr (snd (generate_image_try q p wd ht n w))) = Suc (generation_count (mgr w)) \<and>
   state (slot (snd (generate_image_try q p wd ht n w)) SDXL) = READY"
  using ensure_loaded_kept [of w SDXL]
  by (auto simp: generate_image_try_def case_prod_unfold kept_def failed_def
      split: outcome.splits bool.splits if_splits)

lemma generate_image_try_pregood:
  assumes "pregood w"
  shows "pregood (snd (generate_image_try q p wd ht n w))"
proof -
  have l: "pregood (snd (ensure_loaded SDXL w))"
    using assms by (rule ensure_loaded_pregood)
  have r: "fst (ensure_loaded SDXL w) = Return True \<Longrightarrow>
           pipeline (slot (snd (ensure_loaded SDXL w)) SDXL) \<noteq> None"
    using ensure_loaded_True [of SDXL w] l sound_READY by (simp add: pregood_def)
  show ?thesis
    using l r
    by (auto simp: generate_image_try_def case_prod_unfold
        split: outcome.splits bool.splits if_splits
        intro!: pregood_set_state finish_generation_pregood)
qed

lemma generate_image_try_settled:
  assumes "sound (slot w)" "settled (slot w)"
  shows "settled (slot (snd (generate_image_try q p wd ht n w)))"
proof -
  have l: "settled (slot (snd (ensure_loaded SDXL w)))"
    using assms by (rule ensure_loaded_settled)
  show ?thesis
    using l
    by (auto simp: generate_image_try_def case_prod_unfold settled_def
        split: outcome.splits bool.splits if_splits)
qed


lemma generate_mesh_busy:
  "generation_lock (mgr w) \<Longrightarrow>
   generate_mesh i p w =
     (Return (failed ''Another generation is in progress''),
      emit (TryAcquire False) (emit (Enter ''generate_mesh'') w))"
  by (simp add: generate_mesh_def try_acquire_def)

lemma generate_mesh_free:
  assumes "\<not> generation_lock (mgr w)"
  shows "generate_mesh i p w =
     (case fst (generate_mesh_try i p (snd (try_acquire (emit (Enter ''generate_mesh'') w)))) of
        Return r \<Rightarrow>
          (Return r,
           snd (release (snd (generate_mesh_try i p (snd (try_acquire (emit (Enter ''generate_mesh'') w)))))))
      | Raise e \<Rightarrow>
          (Return (failed e),
           snd (release (set_state INSTANTMESH
             (if pipeline (slot (snd (generate_mesh_try i p
                   (snd (try_acquire (emit (Enter ''generate_mesh'') w))))) INSTANTMESH) \<noteq> None
              then READY else ERROR)
             (snd (generate_mesh_try i p (snd (try_acquire (emit (Enter ''generate_mesh'') w)))))))))"
proof -
  have "framed (snd (try_acquire (emit (Enter ''generate_mesh'') w)))
          (snd (generate_mesh_try i p (snd (try_acquire (emit (Enter ''generate_mesh'') w)))))"
    by (rule generate_mesh_try_framed)
  then have "generation_lock
      (mgr (snd (generate_mesh_try i p (snd (try_acquire (emit (Enter ''generate_mesh'') w))))))"
    by (simp add: framed_def)
  then show ?thesis
    using assms
    by (simp add: generate_mesh_def finally_release_def recover_def case_prod_unfold
        split: outcome.splits bool.splits)
qed


lemma generate_image_busy:
  "generation_lock (mgr w) \<Longrightarrow>
   generate_image q p wd ht n w =
     (Return (failed ''Another generation is in progress''),
      emit (TryAcquire False) (emit (Enter ''generate_image'') w))"
  by (simp add: generate_image_def try_acquire_def)

lemma generate_image_free:
  assumes "\<not> generation_lock (mgr w)"
  shows "generate_image q p wd ht n w =
     (case fst (generate_image_try q p wd ht n (snd (try_acquire (emit (Enter ''generate_image'') w)))) of
        Return r \<Rightarrow>
          (Return r,
           snd (release (snd (generate_image_try q p wd ht n (snd (try_acquire (emit (Enter ''generate_image'') w)))))))
      | Raise e \<Rightarrow>
          (Return (failed e),
           snd (release (set_state SDXL
             (if pipeline (slot (snd (generate_image_try q p wd ht n
                   (snd (try_acquire (emit (Enter ''generate_image'') w))))) SDXL) \<noteq> None
              then READY else ERROR)
             (snd (generate_image_try q p wd ht n (snd (try_acquire (emit (Enter ''generate_image'') w)))))))))"
proof -
  have "framed (snd (try_acquire (emit (Enter ''generate_image'') w)))
          (snd (generate_image_try q p wd ht n (snd (try_acquire (emit (Enter ''generate_image'') w)))))"
    by (rule generate_image_try_framed)
  then have "generation_lock
      (mgr (snd (generate_image_try q p wd ht n (snd (try_acquire (emit (Enter ''generate_image'') w))))))"
    by (simp add: framed_def)
  then show ?thesis
    using assms
    by (simp add: generate_image_def finally_release_def recover_def case_prod_unfold
        split: outcome.splits bool.splits)
qed


lemma good_emit [simp]: "snapshots [e] = [] \<Longrightarrow> good (emit e w) = good w"
  by (simp add: good_def)

lemma good_lock [simp]:
  "good (snd (try_acquire w)) = good w" "good (snd (release w)) = good w"
  by (simp_all add: good_def)

lemma good_recover:
  "good w \<Longrightarrow> pipeline (slot w t) = Some h \<Longrightarrow> good (set_state t READY w)"
  "good w \<Longrightarrow> pipeline (slot w t) = None \<Longrightarrow> good (set_state t ERROR w)"
  by (auto simp: good_def settled_def intro!: pregood_set_state)

lemma generate_mesh_try_good: "good w \<Longrightarrow> good (snd (generate_mesh_try i p w))"
  by (metis good_def pregood_def generate_mesh_try_pregood generate_mesh_try_settled)

lemma generate_mesh_returns: "\<exists>r. fst (generate_mesh i p w) = Return r"
  by (cases "generation_lock (mgr w)")
     (simp_all add: generate_mesh_busy generate_mesh_free split: outcome.splits)

lemma generate_mesh_good: "good w \<Longrightarrow> good (snd (generate_mesh i p w))"
  using generate_mesh_try_good [of "snd (try_acquire (emit (Enter ''generate_mesh'') w))" ]
  by (cases "generation_lock (mgr w)")
     (auto simp: generate_mesh_busy generate_mesh_free split: outcome.splits intro: good_recover)

lemma generate_mesh_frame:
  "env (snd (generate_mesh i p w)) = env w"
  "generation_lock (mgr (snd (generate_mesh i p w))) = generation_lock (mgr w)"
  "restart_threshold (mgr (snd (generate_mesh i p w))) = restart_threshold (mgr w)"
  "vram_buffer_gb (mgr (snd (generate_mesh i p w))) = vram_buffer_gb (mgr w)"
  "acquisitions (trace (snd (generate_mesh i p w))) =
     acquisitions (trace w) @ [TryAcquire (\<not> generation_lock (mgr w))]"
  "entries m (trace (snd (generate_mesh i p w))) =
     entries m (trace w) + (if m = ''generate_mesh'' then 1 else 0)"
  using generate_mesh_try_framed [of "snd (try_acquire (emit (Enter ''generate_mesh'') w))"]
  by (cases "generation_lock (mgr w)";
      simp add: generate_mesh_busy generate_mesh_free framed_def split: outcome.splits)+

lemma generate_mesh_count:
  "generation_count (mgr w) \<le> generation_count (mgr (snd (generate_mesh i p w)))"
  using generate_mesh_try_count [of "snd (try_acquire (emit (Enter ''generate_mesh'') w))"]
  by (cases "generation_lock (mgr w)")
     (simp_all add: generate_mesh_busy generate_mesh_free split: outcome.splits)

lemma generate_mesh_success:
  assumes "fst (generate_mesh i p w) = Return r" "success r"
  shows "generation_count (mgr (snd (generate_mesh i p w))) = Suc (generation_count (mgr w))"
    and "state (slot (snd (generate_mesh i p w)) INSTANTMESH) = READY"
    and "\<not> generation_lock (mgr w)"
  using generate_mesh_try_success [where w = "snd (try_acquire (emit (Enter ''generate_mesh'') w))"] assms
  by (cases "generation_lock (mgr w)";
      auto simp: generate_mesh_busy generate_mesh_free failed_def split: outcome.splits)+


lemma generate_image_try_good: "good w \<Longrightarrow> good (snd (generate_image_try q p wd ht n w))"
  by (metis good_def pregood_def generate_image_try_pregood generate_image_try_settled)

lemma generate_image_returns: "\<exists>r. fst (generate_image q p wd ht n w) = Return r"
  by (cases "generation_lock (mgr w)")
     (simp_all add: generate_image_busy generate_image_free split: outcome.splits)

lemma generate_image_good: "good w \<Longrightarrow> good (snd (generate_image q p wd ht n w))"
  using generate_image_try_good [of "snd (try_acquire (emit (Enter ''generate_image'') w))" ]
  by (cases "generation_lock (mgr w)")
     (auto simp: generate_image_busy generate_image_free split: outcome.splits intro: good_recover)

lemma generate_image_frame:
  "env (snd (generate_image q p wd ht n w)) = env w"
  "generation_lock (mgr (snd (generate_image q p wd ht n w))) = generation_lock (mgr w)"
  "restart_threshold (mgr (snd (generate_image q p wd ht n w))) = restart_threshold (mgr w)"
  "vram_buffer_gb (mgr (snd (generate_image q p wd ht n w))) = vram_buffer_gb (mgr w)"
  "acquisitions (trace (snd (generate_image q p wd ht n w))) =
     acquisitions (trace w) @ [TryAcquire (\<not> generation_lock (mgr w))]"
  "entries m (trace (snd (generate_image q p wd ht n w))) =
     entries m (trace w) + (if m = ''generate_image'' then 1 else 0)"
  using generate_image_try_framed [of "snd (try_acquire (emit (Enter ''generate_image'') w))"]
  by (cases "generation_lock (mgr w)";
      simp add: generate_image_busy generate_image_free framed_def split: outcome.splits)+

lemma generate_image_count:
  "generation_count (mgr w) \<le> generation_count (mgr (snd (generate_image q p wd ht n w)))"
  using generate_image_try_count [of "snd (try_acquire (emit (Enter ''generate_image'') w))"]
  by (cases "generation_lock (mgr w)")
     (simp_all add: generate_image_busy generate_image_free split: outcome.splits)

lemma generate_image_success:
  assumes "fst (generate_image q p wd ht n w) = Return r" "success r"
  shows "generation_count (mgr (snd (generate_image q p wd ht n w))) = Suc (generation_count (mgr w))"
    and "state (slot (snd (generate_image q p wd ht n w)) SDXL) = READY"
    and "\<not> generation_lock (mgr w)"
  using generate_image_try_success [where w = "snd (try_acquire (emit (Enter ''generate_image'') w))"] assms
  by (cases "generation_lock (mgr w)";
      auto simp: generate_image_busy generate_image_free failed_def split: outcome.splits)+

lemma verdicts_steps [simp]:
  "verdicts (trace (tick w)) = verdicts (trace w)"
  by simp

lemma unload_model_verdicts [simp]:
  "verdicts (trace (snd (unload_model t w))) = verdicts (trace w)"
  by (simp add: unload_model_def Let_def case_prod_unfold split: outcome.splits)

lemma unload_all_verdicts [simp]:
  "verdicts (trace (snd (unload_all w))) = verdicts (trace w)"
  by (simp add: unload_all_unfold case_prod_unfold split: outcome.splits)

lemma unload_model_unseen:
  assumes "P (state (slot w t))" "P UNLOADING" "P UNLOADED" "P ERROR"
  shows "filter (\<lambda>s. \<not> P (state (s t))) (snapshots (trace (snd (unload_model t' w)))) =
         filter (\<lambda>s. \<not> P (state (s t))) (snapshots (trace w)) \<and>
         P (state (slot (snd (unload_model t' w)) t))"
  using assms
  by (simp add: unload_model_def Let_def case_prod_unfold split: outcome.splits)

lemma unload_model_untouched:
  assumes "state (slot w t) = UNLOADED"
  shows "filter (\<lambda>s. state (s t) \<noteq> UNLOADED) (snapshots (trace (snd (unload_model t' w)))) =
         filter (\<lambda>s. state (s t) \<noteq> UNLOADED) (snapshots (trace w)) \<and>
         state (slot (snd (unload_model t' w)) t) = UNLOADED"
  using assms
  by (cases "t' = t")
     (simp_all add: unload_model_def Let_def case_prod_unfold split: outcome.splits)


lemma unload_all_unseen:
  assumes "P (state (slot w t))" "P UNLOADING" "P UNLOADED" "P ERROR"
  shows "filter (\<lambda>s. \<not> P (state (s t))) (snapshots (trace (snd (unload_all w)))) =
         filter (\<lambda>s. \<not> P (state (s t))) (snapshots (trace w)) \<and>
         P (state (slot (snd (unload_all w)) t))"
proof -
  note a = unload_model_unseen [OF assms, of INSTANTMESH]
  note b = unload_model_unseen [OF conjunct2 [OF a] assms(2,3,4), of SDXL]
  show ?thesis
    using a b by (simp add: unload_all_unfold case_prod_unfold split: outcome.splits)
qed

lemma unload_all_untouched:
  assumes "state (slot w t) = UNLOADED"
  shows "filter (\<lambda>s. state (s t) \<noteq> UNLOADED) (snapshots (trace (snd (unload_all w)))) =
         filter (\<lambda>s. state (s t) \<noteq> UNLOADED) (snapshots (trace w)) \<and>
         state (slot (snd (unload_all w)) t) = UNLOADED"
proof -
  note a = unload_model_untouched [OF assms, of INSTANTMESH]
  note b = unload_model_untouched [OF conjunct2 [OF a], of SDXL]
  show ?thesis
    using a b by (simp add: unload_all_unfold case_prod_unfold split: outcome.splits)
qed

lemma unload_model_state:
  "state (slot (snd (unload_model t w)) t) = UNLOADED \<or>
   state (slot (snd (unload_model t w)) t) = ERROR"
  by (simp add: unload_model_def Let_def case_prod_unfold split: outcome.splits)

lemma unload_all_state:
  assumes "fst (unload_all w) = Return u"
  shows "state (slot (snd (unload_all w)) t) = UNLOADED \<or>
         state (slot (snd (unload_all w)) t) = ERROR"
proof (cases t)
  case INSTANTMESH
  then show ?thesis
    using assms unload_model_state [of INSTANTMESH w]
      unload_model_others [of INSTANTMESH SDXL "snd (unload_model INSTANTMESH w)"]
    by (auto simp: unload_all_unfold case_prod_unfold split: outcome.splits)
next
  case SDXL
  then show ?thesis
    using assms unload_model_state [of SDXL "snd (unload_model INSTANTMESH w)"]
    by (auto simp: unload_all_unfold case_prod_unfold split: outcome.splits)
qed

lemma load_model_denied:
  assumes "verdicts (trace (snd (load_model t w))) = verdicts (trace w) @ [False]"
  shows "fst (load_model t w) = Return False"
    and "snd (load_model t w) =
           snd (check_vram_budget (required_vram_gb (CONFIG (env w)) t)
                  (tick (snd (unload_all w))))"
    and "fst (unload_all w) = Return ()"
proof -
  show "fst (unload_all w) = Return ()"
    using assms
    by (auto simp: load_model_def case_prod_unfold split: outcome.splits bool.splits if_splits)
  have k: "env (snd (unload_all w)) = env w"
    using unload_all_kept [of w] by (simp add: kept_def)
  show "fst (load_model t w) = Return False"
    using assms k
    by (auto simp: load_model_def case_prod_unfold split: outcome.splits bool.splits if_splits)
  show "snd (load_model t w) =
           snd (check_vram_budget (required_vram_gb (CONFIG (env w)) t)
                  (tick (snd (unload_all w))))"
    using assms k
    by (auto simp: load_model_def case_prod_unfold split: outcome.splits bool.splits if_splits)
qed

text \<open>
  C7. The budget check admits whenever the probe reports unavailable, and otherwise denies
  exactly when the free memory is below the float sum of the requirement and the buffer,
  which is their exact sum rounded to the nearest binary64 number. A load whose
  budget check denies returns False; the slot it was to load is never seen LOADING, ends
  UNLOADED or ERROR, and a slot that was UNLOADED before the call is UNLOADED at every
  instant of the call and after it.
\<close>

theorem admission_control:
  "(\<not> available v \<longrightarrow> budget_ok v g b) \<and>
   (available v \<longrightarrow>
      budget_ok v g b =
        (\<not> float_less (float_of (free_gb v)) (float_add (float_of g) (float_of b)))) \<and>
   fst (check_vram_budget g w) = budget_ok (vram_at (env w) (ticks w)) g (vram_buffer_gb (mgr w)) \<and>
   (state (slot w t) \<noteq> LOADING \<and>
    verdicts (trace (snd (load_model t w))) = verdicts (trace w) @ [False] \<longrightarrow>
      fst (load_model t w) = Return False \<and>
      filter (\<lambda>s. state (s t) = LOADING) (snapshots (trace (snd (load_model t w)))) =
        filter (\<lambda>s. state (s t) = LOADING) (snapshots (trace w)) \<and>
      (state (slot (snd (load_model t w)) t) = UNLOADED \<or>
       state (slot (snd (load_model t w)) t) = ERROR) \<and>
      (state (slot w t) = UNLOADED \<longrightarrow>
         state (slot (snd (load_model t w)) t) = UNLOADED \<and>
         filter (\<lambda>s. state (s t) \<noteq> UNLOADED) (snapshots (trace (snd (load_model t w)))) =
           filter (\<lambda>s. state (s t) \<noteq> UNLOADED) (snapshots (trace w))))"
proof (intro conjI impI)
  show "\<not> available v \<Longrightarrow> budget_ok v g b" by (simp add: budget_ok_def)
  show "available v \<Longrightarrow> budget_ok v g b =
          (\<not> float_less (float_of (free_gb v)) (float_add (float_of g) (float_of b)))"
    by (simp add: budget_ok_def)
  show "fst (check_vram_budget g w) =
          budget_ok (vram_at (env w) (ticks w)) g (vram_buffer_gb (mgr w))" by simp
next
  assume a: "state (slot w t) \<noteq> LOADING \<and>
    verdicts (trace (snd (load_model t w))) = verdicts (trace w) @ [False]"
  then have d: "verdicts (trace (snd (load_model t w))) = verdicts (trace w) @ [False]"
    and n: "state (slot w t) \<noteq> LOADING" by simp_all
  note w' = load_model_denied(2) [OF d]
  show "fst (load_model t w) = Return False" by (rule load_model_denied(1) [OF d])
  have u: "filter (\<lambda>s. \<not> state (s t) \<noteq> LOADING) (snapshots (trace (snd (unload_all w)))) =
           filter (\<lambda>s. \<not> state (s t) \<noteq> LOADING) (snapshots (trace w)) \<and>
           state (slot (snd (unload_all w)) t) \<noteq> LOADING"
    by (rule unload_all_unseen [where P = "\<lambda>x. x \<noteq> LOADING"]) (simp_all add: n)
  show "filter (\<lambda>s. state (s t) = LOADING) (snapshots (trace (snd (load_model t w)))) =
        filter (\<lambda>s. state (s t) = LOADING) (snapshots (trace w))"
    using u by (simp add: w')
  note e = unload_all_state [OF load_model_denied(3) [OF d], of t]
  show "state (slot (snd (load_model t w)) t) = UNLOADED \<or>
       state (slot (snd (load_model t w)) t) = ERROR"
    using e by (simp add: w')
next
  assume a: "state (slot w t) \<noteq> LOADING \<and>
    verdicts (trace (snd (load_model t w))) = verdicts (trace w) @ [False]"
    and s: "state (slot w t) = UNLOADED"
  from a have d: "verdicts (trace (snd (load_model t w))) = verdicts (trace w) @ [False]"
    by simp
  note w' = load_model_denied(2) [OF d]
  note u = unload_all_untouched [OF s]
  show "state (slot (snd (load_model t w)) t) = UNLOADED" using u by (simp add: w')
  show "filter (\<lambda>s. state (s t) \<noteq> UNLOADED) (snapshots (trace (snd (load_model t w)))) =
        filter (\<lambda>s. state (s t) \<noteq> UNLOADED) (snapshots (trace w))"
    using u by (simp add: w')
qed


lemma starved_load:
  "verdicts (trace (snd (load_model INSTANTMESH (model_manager starved)))) =
   verdicts (trace (model_manager starved)) @ [False]"
  by (simp add: model_manager_def starved_def calm_def ModelManager_init_def load_model_def
      unload_all_unfold unload_model_def clear_vram_def external_def check_vram_budget_def
      get_vram_info_def budget_evals required_vram_gb_def tick_def emit_def)

lemma float_sum_6_2:
  "float_of 4 = Finite 4" "float_add (float_of 6) (float_of 2) = Finite 8"
  by (simp_all add: float_defs)

theorem admission_control_witness:
  "\<not> budget_ok \<lparr>available = True, free_gb = 4\<rparr> 6 2 \<and>
   budget_ok \<lparr>available = False, free_gb = 4\<rparr> 6 2 \<and>
   fst (load_model INSTANTMESH (model_manager starved)) = Return False \<and>
   state (slot (snd (load_model INSTANTMESH (model_manager starved))) INSTANTMESH) = UNLOADED"
  using admission_control [of "\<lparr>available = True, free_gb = 4\<rparr>" 6 2 "model_manager starved"
      INSTANTMESH]
    admission_control [of "\<lparr>available = False, free_gb = 4\<rparr>" 6 2 "model_manager starved"
      INSTANTMESH]
    starved_load
  by (simp add: model_manager_def ModelManager_init_def float_sum_6_2)

text \<open>
  C7 as the specification words it, with the exact sum, fails: the three numbers below are
  binary64 numbers, the free memory is below the exact sum of the requirement and the
  buffer, and the check admits, because the float sum is rounded down to the free memory.
  The second case is the one of the floats \<open>5.9\<close> and \<open>2.1\<close> with \<open>8.0\<close> free.
\<close>

theorem budget_admits_below_exact_sum:
  "float_of 1 = Finite 1 \<and> float_of (1 / 2 ^ 53) = Finite (1 / 2 ^ 53) \<and>
   (1 :: real) < 1 + 1 / 2 ^ 53 \<and>
   budget_ok \<lparr>available = True, free_gb = 1\<rparr> 1 (1 / 2 ^ 53) \<and>
   float_of (59 / 10) = Finite (3321404725185741 / 2 ^ 49) \<and>
   float_of (21 / 10) = Finite (4728779608739021 / 2 ^ 51) \<and>
   float_of 8 = Finite 8 \<and>
   (8 :: real) < 3321404725185741 / 2 ^ 49 + 4728779608739021 / 2 ^ 51 \<and>
   budget_ok \<lparr>available = True, free_gb = 8\<rparr> (59 / 10) (21 / 10)"
  by (simp add: budget_ok_def float_defs)


text \<open>
  C10. A load of a model whose slot is READY returns True and leaves the whole world as it
  was: no other slot is evicted, no state, handle or load count changes, nothing is
  observed and no external call is made. So a second load after a load that returned True
  changes nothing.
\<close>

theorem load_ready_is_noop:
  "(state (slot w INSTANTMESH) = READY \<longrightarrow> load_instantmesh w = (Return True, w)) \<and>
   (state (slot w SDXL) = READY \<longrightarrow> load_sdxl w = (Return True, w)) \<and>
   (fst (load_model t w) = Return True \<longrightarrow>
      load_model t (snd (load_model t w)) = (Return True, snd (load_model t w)))"
  by (simp add: load_instantmesh_def load_sdxl_def load_model_Ready load_model_True)

lemma calm_load_sdxl:
  "fst (load_model SDXL (model_manager calm)) = Return True"
  by (simp add: model_manager_def calm_def ModelManager_init_def load_model_def
      unload_all_unfold unload_model_def clear_vram_def external_def check_vram_budget_def
      get_vram_info_def budget_evals required_vram_gb_def from_pretrained_def
      tick_def emit_def)

theorem load_ready_is_noop_witness:
  "state (slot (snd (load_sdxl (model_manager calm))) SDXL) = READY \<and>
   load_sdxl (snd (load_sdxl (model_manager calm))) =
     (Return True, snd (load_sdxl (model_manager calm)))"
  using load_ready_is_noop [of "snd (load_sdxl (model_manager calm))" SDXL]
    load_model_True [OF calm_load_sdxl]
  by (simp add: load_sdxl_def)

text \<open>
  C6. With the generation lock held, each of the three generation functions returns the
  failure "Another generation is in progress" and leaves the manager as it was: every
  slot, the counters and the lock itself. It makes no external call.
\<close>

theorem busy_preserves_state:
  "generation_lock (mgr w) \<longrightarrow>
     (fst (generate_mesh i p w) = Return (failed ''Another generation is in progress'') \<and>
      mgr (snd (generate_mesh i p w)) = mgr w \<and> ticks (snd (generate_mesh i p w)) = ticks w) \<and>
     (fst (generate_image q p wd ht n w) = Return (failed ''Another generation is in progress'') \<and>
      mgr (snd (generate_image q p wd ht n w)) = mgr w \<and>
      ticks (snd (generate_image q p wd ht n w)) = ticks w) \<and>
     (\<exists>w'. generate_full_pipeline q d n w =
              Some (pipeline_failed ''Another generation is in progress'' ''blocked'', w') \<and>
           mgr w' = mgr w \<and> ticks w' = ticks w)"
  by (simp add: generate_mesh_busy generate_image_busy generate_full_pipeline_def
      try_acquire_held)

theorem busy_preserves_state_witness:
  "generation_lock (mgr (snd (try_acquire (model_manager calm)))) \<and>
   fst (generate_mesh ''in.png'' ''out.glb'' (snd (try_acquire (model_manager calm)))) =
     Return (failed ''Another generation is in progress'') \<and>
   mgr (snd (generate_mesh ''in.png'' ''out.glb'' (snd (try_acquire (model_manager calm))))) =
     mgr (snd (try_acquire (model_manager calm)))"
  using busy_preserves_state [of "snd (try_acquire (model_manager calm))" "''in.png''"
      "''out.glb''"]
  by simp

lemma acquire_blocking_relock:
  "acquire_blocking w = (if generation_lock (mgr w) then None else Some (relock w))"
  by (simp add: acquire_blocking_def relock_def)

lemma relock_simps [simp]:
  "models (mgr (relock w)) = models (mgr w)"
  "generation_lock (mgr (relock w)) = True"
  "generation_count (mgr (relock w)) = generation_count (mgr w)"
  "total_generation_time (mgr (relock w)) = total_generation_time (mgr w)"
  "restart_threshold (mgr (relock w)) = restart_threshold (mgr w)"
  "vram_buffer_gb (mgr (relock w)) = vram_buffer_gb (mgr w)"
  "env (relock w) = env w" "ticks (relock w) = ticks w"
  "trace (relock w) = trace w @ [AcquireBlocking]"
  by (simp_all add: relock_def)

lemma good_relock [simp]: "good (relock w) = good w"
  by (simp add: good_def pregood_def)

lemma good_tick [simp]: "good (tick w) = good w"
  by (simp add: good_def)

lemma step_ok_refl [simp]: "step_ok w w"
  by (simp add: step_ok_def)

lemma step_ok_trans: "step_ok w w1 \<Longrightarrow> step_ok w1 w2 \<Longrightarrow> step_ok w w2"
  by (auto simp: step_ok_def)

lemma step_ok_steps [simp]:
  "step_ok w (tick w1) = step_ok w w1"
  "step_ok w (relock w1) = step_ok w w1"
  "step_ok w (snd (release w1)) = step_ok w w1"
  "step_ok w (snd (try_acquire w1)) = step_ok w w1"
  "step_ok w (emit (Enter m) w1) = step_ok w w1"
  "step_ok w (emit (TryAcquire b) w1) = step_ok w w1"
  by (simp_all add: step_ok_def)

lemma generate_mesh_step: "step_ok w (snd (generate_mesh i p w))"
  by (simp add: step_ok_def generate_mesh_frame generate_mesh_count generate_mesh_good)

lemma generate_image_step: "step_ok w (snd (generate_image q p wd ht n w))"
  by (simp add: step_ok_def generate_image_frame generate_image_count generate_image_good)

lemma unlocked_held:
  assumes "generation_lock (mgr w)"
    and "\<And>w1. \<exists>r. fst (f w1) = Return r"
    and "\<And>w1. generation_lock (mgr (snd (f w1))) = generation_lock (mgr w1)"
  shows "\<exists>r. fst (f (snd (release w))) = Return r \<and>
             unlocked f w = Some (Return r, relock (snd (f (snd (release w)))))"
proof -
  obtain r where r: "fst (f (snd (release w))) = Return r"
    using assms(2) by blast
  have l: "\<not> generation_lock (mgr (snd (f (snd (release w)))))"
    by (simp add: assms(3))
  show ?thesis
    using r l assms(1)
    by (simp add: unlocked_def case_prod_unfold acquire_blocking_relock)
qed


lemma stage_image:
  assumes "generation_lock (mgr w)"
  shows "\<exists>r. fst (generate_image q p wd ht n (snd (release w))) = Return r \<and>
             unlocked (generate_image q p wd ht n) w =
               Some (Return r, relock (snd (generate_image q p wd ht n (snd (release w)))))"
  by (rule unlocked_held [OF assms]) (simp_all add: generate_image_returns generate_image_frame)

lemma stage_mesh:
  assumes "generation_lock (mgr w)"
  shows "\<exists>r. fst (generate_mesh i p (snd (release w))) = Return r \<and>
             unlocked (generate_mesh i p) w =
               Some (Return r, relock (snd (generate_mesh i p (snd (release w)))))"
  by (rule unlocked_held [OF assms]) (simp_all add: generate_mesh_returns generate_mesh_frame)

lemma pipeline_success_simps [simp]:
  "snd (pipeline_success d ts r1 r2 w) = tick (tick w)"
  "\<exists>r. fst (pipeline_success d ts r1 r2 w) = Return r"
  by (simp_all add: pipeline_success_def case_prod_unfold)

lemma mesh_stage_total:
  assumes "generation_lock (mgr w)"
  shows "\<exists>r w'. mesh_stage d ts r1 w = Some (r, w') \<and> step_ok w w' \<and>
                generation_lock (mgr w')"
proof -
  obtain r2 where
    u: "unlocked (generate_mesh (d @ ''/generated_image.png'') (d @ ''/generated_mesh.glb'')) w =
        Some (Return r2, relock (snd (generate_mesh (d @ ''/generated_image.png'')
                (d @ ''/generated_mesh.glb'') (snd (release w)))))"
    using stage_mesh [OF assms] by blast
  have s: "step_ok w (snd (generate_mesh (d @ ''/generated_image.png'')
                (d @ ''/generated_mesh.glb'') (snd (release w))))"
    using generate_mesh_step [of "snd (release w)"] step_ok_trans [of w "snd (release w)"]
    by simp
  show ?thesis
  proof (cases "success r2")
    case True
    then show ?thesis
      using u s
      by (cases "pipeline_success d ts r1 r2 (relock (snd (generate_mesh
            (d @ ''/generated_image.png'') (d @ ''/generated_mesh.glb'') (snd (release w)))))")
         (simp add: mesh_stage_def pipeline_success_def case_prod_unfold)
  next
    case False
    then show ?thesis using u s by (simp add: mesh_stage_def)
  qed
qed

lemma pipeline_try_total:
  assumes "generation_lock (mgr w)"
  shows "\<exists>r w'. generate_full_pipeline_try q d n w = Some (r, w') \<and> step_ok w w' \<and>
                generation_lock (mgr w')"
proof (cases "fst (external w)")
  case (Raise e)
  then show ?thesis
    using assms by (simp add: generate_full_pipeline_try_def case_prod_unfold)
next
  case (Return x)
  let ?w2 = "tick (tick w)"
  let ?w3 = "relock (snd (generate_image q (d @ ''/generated_image.png'') 1024 1024 n
                       (snd (release ?w2))))"
  have l2: "generation_lock (mgr ?w2)" using assms by simp
  obtain r1 where
    u: "unlocked (generate_image q (d @ ''/generated_image.png'') 1024 1024 n) ?w2 =
        Some (Return r1, ?w3)"
    using stage_image [OF l2] by blast
  have s: "step_ok w ?w3"
    using generate_image_step [of "snd (release ?w2)"] step_ok_trans [of w "snd (release ?w2)"]
    by simp
  show ?thesis
  proof (cases "success r1")
    case False
    then show ?thesis
      using Return u s by (simp add: generate_full_pipeline_try_def case_prod_unfold)
  next
    case True
    have "\<exists>r w'. mesh_stage d (fst (now (tick w))) r1 ?w3 = Some (r, w') \<and> step_ok ?w3 w' \<and>
                generation_lock (mgr w')"
      by (rule mesh_stage_total) simp
    then obtain r w' where m: "mesh_stage d (fst (now (tick w))) r1 ?w3 = Some (r, w')"
      "step_ok ?w3 w'" "generation_lock (mgr w')"
      by blast
    have "step_ok w w'" using s m(2) by (rule step_ok_trans)
    then show ?thesis
      using Return True u m(1,3)
      by (simp add: generate_full_pipeline_try_def case_prod_unfold)
  qed
qed

lemma pipeline_total:
  "\<exists>r w'. generate_full_pipeline q d n w = Some (r, w') \<and> step_ok w w' \<and>
          generation_lock (mgr w') = generation_lock (mgr w)"
proof (cases "generation_lock (mgr w)")
  case True
  then show ?thesis
    by (simp add: generate_full_pipeline_def try_acquire_held)
next
  case False
  let ?w1 = "snd (try_acquire (emit (Enter ''generate_full_pipeline'') w))"
  have "\<exists>r w'. generate_full_pipeline_try q d n ?w1 = Some (r, w') \<and> step_ok ?w1 w' \<and>
                generation_lock (mgr w')"
    by (rule pipeline_try_total) simp
  then obtain r w' where t: "generate_full_pipeline_try q d n ?w1 = Some (r, w')"
    "step_ok ?w1 w'" "generation_lock (mgr w')"
    by blast
  have "step_ok w ?w1" by simp
  then have "step_ok w w'" using t(2) by (rule step_ok_trans)
  then show ?thesis
    using False t(1,3)
    by (cases r) (simp_all add: generate_full_pipeline_def case_prod_unfold release_quietly_def)
qed

lemma good_unload_model: "good w \<Longrightarrow> good (snd (unload_model t w))"
  by (simp add: good_def unload_model_pregood unload_model_settled)

lemma good_unload_all: "good w \<Longrightarrow> good (snd (unload_all w))"
  by (simp add: good_def unload_all_pregood unload_all_settled)

lemma good_load_model: "good w \<Longrightarrow> good (snd (load_model t w))"
  by (metis good_def pregood_def load_model_pregood load_model_settled)

lemma kept_step_ok: "kept w w' \<Longrightarrow> (good w \<Longrightarrow> good w') \<Longrightarrow> step_ok w w'"
  by (simp add: kept_def step_ok_def)

lemma get_status_snd [simp]: "snd (get_status w) = tick w"
  by (simp add: get_status_def case_prod_unfold)

lemma exec_total: "\<exists>w'. exec c w = Some w' \<and> step_ok w w'"
proof (cases c)
  case LoadInstantmesh
  then show ?thesis
    by (simp add: load_instantmesh_def kept_step_ok load_model_kept good_load_model)
next
  case LoadSdxl
  then show ?thesis
    by (simp add: load_sdxl_def kept_step_ok load_model_kept good_load_model)
next
  case (UnloadModel t)
  then show ?thesis by (simp add: kept_step_ok unload_model_kept good_unload_model)
next
  case UnloadAll
  then show ?thesis by (simp add: kept_step_ok unload_all_kept good_unload_all)
next
  case Shutdown
  then show ?thesis by (simp add: shutdown_def kept_step_ok unload_all_kept good_unload_all)
next
  case (GenerateMesh i p)
  then show ?thesis by (simp add: generate_mesh_step)
next
  case (GenerateImage q p wd ht n)
  then show ?thesis by (simp add: generate_image_step)
next
  case (GenerateFullPipeline q d n)
  then show ?thesis using pipeline_total [of q d n w] by auto
next
  case GetStatus
  then show ?thesis by simp
qed

lemma run_total: "\<exists>w'. run cs w = Some w' \<and> step_ok w w'"
proof (induction cs arbitrary: w)
  case Nil
  then show ?case by simp
next
  case (Cons c cs)
  obtain w1 where e: "exec c w = Some w1" "step_ok w w1"
    using exec_total by blast
  obtain w' where r: "run cs w1 = Some w'" "step_ok w1 w'"
    using Cons.IH by blast
  show ?case using e r step_ok_trans by auto
qed

lemma good_model_manager: "good (model_manager e)"
  by (simp add: good_def pregood_def sound_def coupled_def resident_def settled_def
      model_manager_def ModelManager_init_def)

lemma run_good: "\<exists>w. run cs (model_manager e) = Some w \<and> good w"
  using run_total [of cs "model_manager e"] good_model_manager [of e]
  by (auto simp: step_ok_def)

lemma sound_single_residency: "sound s \<Longrightarrow> single_residency s"
  unfolding sound_def coupled_def single_residency_def
  by (metis ModelType.exhaust)


lemma premature_filter:
  "filter (premature t t') xs =
   filter (\<lambda>s. \<not> evicted (s t')) (filter (\<lambda>s. \<not> (state (s t) \<noteq> LOADING \<and> state (s t) \<noteq> READY)) xs)"
  by (induction xs) (auto simp: premature_def)

lemma load_model_not_premature:
  assumes "sound (slot w)" "settled (slot w)" "t' \<noteq> t"
  shows "filter (premature t t') (snapshots (trace (snd (load_model t w)))) =
         filter (premature t t') (snapshots (trace w))"
proof (cases "state (slot w t) = READY")
  case True
  then show ?thesis by (simp add: load_model_Ready)
next
  case False
  have "filter (\<lambda>s. \<not> (state (s t) \<noteq> LOADING \<and> state (s t) \<noteq> READY))
          (snapshots (trace (snd (unload_all w)))) =
        filter (\<lambda>s. \<not> (state (s t) \<noteq> LOADING \<and> state (s t) \<noteq> READY)) (snapshots (trace w)) \<and>
        (state (slot (snd (unload_all w)) t) \<noteq> LOADING \<and>
         state (slot (snd (unload_all w)) t) \<noteq> READY)"
    using assms(2) False
    by (intro unload_all_unseen [where P = "\<lambda>x. x \<noteq> LOADING \<and> x \<noteq> READY"])
       (simp_all add: settled_def)
  then have u: "filter (premature t t') (snapshots (trace (snd (unload_all w)))) =
                filter (premature t t') (snapshots (trace w))"
    by (simp add: premature_filter)
  have e: "\<And>u. fst (unload_all w) = Return u \<Longrightarrow> evicted (slot (snd (unload_all w)) t')"
    using assms(1) by (rule unload_all_evicted)
  show ?thesis
    using False u e assms(3)
    by (auto simp: load_model_def case_prod_unfold premature_def evicted_def
        split: outcome.splits bool.splits)
qed

text \<open>
  C1. From the fresh manager, every sequence of calls returns, and at every instant of
  the run (every snapshot of the trace, and the table it ends with) at most one slot is
  READY or GENERATING. A load issued in the state the run ends in shows at no instant
  its own slot LOADING or READY while another slot is not yet evicted (UNLOADED or ERROR,
  without a handle).
\<close>

theorem single_residency_holds:
  "\<exists>w. run cs (model_manager e) = Some w \<and>
       single_residency (slot w) \<and>
       list_all single_residency (snapshots (trace w)) \<and>
       (\<forall>t t'. t' \<noteq> t \<longrightarrow>
          filter (premature t t') (snapshots (trace (snd (load_model t w)))) =
          filter (premature t t') (snapshots (trace w)))"
proof -
  obtain w where w: "run cs (model_manager e) = Some w" "good w"
    using run_good by blast
  have s: "sound (slot w)" "list_all sound (snapshots (trace w))" "settled (slot w)"
    using w(2) by (simp_all add: good_def pregood_def)
  have "list_all single_residency (snapshots (trace w))"
    using s(2) by (simp add: list_all_iff sound_single_residency)
  then show ?thesis
    using w(1) s(1,3) by (simp add: sound_single_residency load_model_not_premature)
qed


lemmas load_defs =
  model_manager_def ModelManager_init_def load_instantmesh_def load_sdxl_def load_model_def
  unload_all_unfold unload_model_def clear_vram_def external_def check_vram_budget_def
  get_vram_info_def budget_evals required_vram_gb_def from_pretrained_def

lemma calm_two_loads:
  "\<exists>w. run [LoadSdxl, LoadInstantmesh] (model_manager calm) = Some w \<and>
       state (slot w INSTANTMESH) = READY \<and> state (slot w SDXL) = UNLOADED"
  by (simp add: load_defs calm_def)

theorem single_residency_holds_witness:
  "\<exists>w. run [LoadSdxl, LoadInstantmesh] (model_manager calm) = Some w \<and>
       state (slot w INSTANTMESH) = READY \<and> state (slot w SDXL) = UNLOADED \<and>
       single_residency (slot w) \<and>
       list_all single_residency (snapshots (trace w)) \<and>
       filter (premature SDXL INSTANTMESH) (snapshots (trace (snd (load_model SDXL w)))) =
       filter (premature SDXL INSTANTMESH) (snapshots (trace w))"
  using single_residency_holds [of "[LoadSdxl, LoadInstantmesh]" calm] calm_two_loads
  by auto

lemma sound_coupled: "sound s \<Longrightarrow> coupled (s t)"
  by (cases t) (simp_all add: sound_def)

text \<open>
  C4, as the code has it. At every instant of every run a handle that is not null implies
  a state among LOADING, READY, GENERATING, UNLOADING, and a state READY or GENERATING
  implies a handle that is not null; so the handle is null in UNLOADED and ERROR. Between
  two calls no slot is LOADING or UNLOADING, and there the handle is not null exactly
  when the state is READY or GENERATING.
\<close>

theorem handle_follows_state:
  "\<exists>w. run cs (model_manager e) = Some w \<and>
       list_all (\<lambda>s. \<forall>t. coupled (s t)) (snapshots (trace w)) \<and>
       (\<forall>t. (pipeline (slot w t) \<noteq> None) = resident (slot w t)) \<and>
       (\<forall>t. state (slot w t) \<noteq> LOADING \<and> state (slot w t) \<noteq> UNLOADING)"
proof -
  obtain w where w: "run cs (model_manager e) = Some w" "good w"
    using run_good by blast
  have s: "sound (slot w)" "list_all sound (snapshots (trace w))" "settled (slot w)"
    using w(2) by (simp_all add: good_def pregood_def)
  have a: "list_all (\<lambda>s. \<forall>t. coupled (s t)) (snapshots (trace w))"
    using s(2) by (simp add: list_all_iff sound_coupled)
  have b: "\<forall>t. (pipeline (slot w t) \<noteq> None) = resident (slot w t)"
    using sound_coupled [OF s(1)] s(3) by (auto simp: coupled_def settled_def resident_def)
  show ?thesis
    using w(1) a b s(3) by (simp add: settled_def)
qed

theorem handle_follows_state_witness:
  "\<exists>w. run [LoadSdxl, LoadInstantmesh] (model_manager calm) = Some w \<and>
       state (slot w INSTANTMESH) = READY \<and> pipeline (slot w INSTANTMESH) \<noteq> None \<and>
       state (slot w SDXL) = UNLOADED \<and> pipeline (slot w SDXL) = None \<and>
       list_all (\<lambda>s. \<forall>t. coupled (s t)) (snapshots (trace w))"
  using handle_follows_state [of "[LoadSdxl, LoadInstantmesh]" calm] calm_two_loads
  by (auto simp: resident_def all_ModelType)

text \<open>
  The coupling as the specification words it fails while a model loads: the slot is
  LOADING from line 269 on, and its handle is null until line 292.
\<close>

theorem coupling_fails_while_loading:
  "\<not> list_all table_coupling (snapshots (trace (the (run [LoadSdxl] (model_manager calm)))))"
  by (simp add: load_defs calm_def table_coupling_def handle_state_coupling_def)

lemmas generate_defs =
  generate_mesh_def generate_image_def generate_mesh_try_def generate_image_try_def
  ensure_loaded_def run_instantmesh_def run_sdxl_def call_pipeline_def export_mesh_def
  save_image_def finish_generation_def stat_size_def now_def recover_def finally_release_def
  try_acquire_def release_def count_generation_def

text \<open>
  C3 at the failing input: the backend returns an object with none of the attributes
  generate\_mesh looks for. The function returns at line 365, inside the \<open>try\<close>, without
  passing line 371 or the handler of line 388, and the slot is left GENERATING.
\<close>

theorem generate_mesh_leaves_generating:
  "fst (generate_mesh ''in.png'' ''out.glb'' (model_manager shapeless)) =
     Return (failed ''Model output format not recognized'') \<and>
   state (slot (snd (generate_mesh ''in.png'' ''out.glb'' (model_manager shapeless)))
     INSTANTMESH) = GENERATING \<and>
   pipeline (slot (snd (generate_mesh ''in.png'' ''out.glb'' (model_manager shapeless)))
     INSTANTMESH) \<noteq> None"
  by (simp add: load_defs generate_defs shapeless_def calm_def)


lemma observations_relock [simp]:
  "snapshots (trace (relock w)) = snapshots (trace w)"
  "acquisitions (trace (relock w)) = acquisitions (trace w) @ [AcquireBlocking]"
  "entries m (trace (relock w)) = entries m (trace w)"
  by simp_all

lemma observations_try_acquire [simp]:
  "snapshots (trace (snd (try_acquire w))) = snapshots (trace w)"
  "acquisitions (trace (snd (try_acquire w))) =
     acquisitions (trace w) @ [TryAcquire (\<not> generation_lock (mgr w))]"
  "entries m (trace (snd (try_acquire w))) = entries m (trace w)"
  by simp_all

lemma pipeline_mkdir_raises:
  assumes "\<not> generation_lock (mgr w)"
    and "w1 = snd (try_acquire (emit (Enter ''generate_full_pipeline'') w))"
    and "fst (external w1) = Raise e"
  shows "generate_full_pipeline q d n w =
           Some (pipeline_failed e ''unknown'', snd (release (tick w1)))"
  using assms
  by (simp add: generate_full_pipeline_def generate_full_pipeline_try_def case_prod_unfold
      release_quietly_def)

lemma pipeline_stages:
  assumes "\<not> generation_lock (mgr w)"
    and "w1 = snd (try_acquire (emit (Enter ''generate_full_pipeline'') w))"
    and "fst (external w1) = Return u"
    and "g1 = generate_image q (d @ ''/generated_image.png'') 1024 1024 n
                (snd (release (tick (tick w1))))"
    and "w3 = relock (snd g1)"
    and "g2 = generate_mesh (d @ ''/generated_image.png'') (d @ ''/generated_mesh.glb'')
                (snd (release w3))"
    and "w4 = relock (snd g2)"
  shows "\<exists>r1. fst g1 = Return r1 \<and>
          (\<not> success r1 \<longrightarrow>
             generate_full_pipeline q d n w =
               Some (stage_failed ''image'' ''Image generation failed: '' r1 (Some r1) None,
                     snd (release w3))) \<and>
          (success r1 \<longrightarrow>
             (\<exists>r2. fst g2 = Return r2 \<and>
                (\<not> success r2 \<longrightarrow>
                   generate_full_pipeline q d n w =
                     Some (stage_failed ''mesh'' ''Mesh generation failed: '' r2
                             (Some r1) (Some r2),
                           snd (release w4))) \<and>
                (success r2 \<longrightarrow>
                   generate_full_pipeline q d n w =
                     Some (\<lparr>success = True, error = None,
                            vram_after = Some (vram_at (env w) (Suc (ticks w4))),
                            stage = None, stages_image = Some r1, stages_mesh = Some r2,
                            total_time = Some (round2 (time_at (env w) (ticks w4) -
                                                       time_at (env w) (Suc (ticks w1)))),
                            image_path = Some (d @ ''/generated_image.png''),
                            mesh_path = Some (d @ ''/generated_mesh.glb'')\<rparr>,
                           snd (release (tick (tick w4)))))))"
proof -
  have l1: "generation_lock (mgr (tick (tick w1)))"
    by (simp add: assms(2))
  obtain r1 where r1: "fst g1 = Return r1"
    and u1: "unlocked (generate_image q (d @ ''/generated_image.png'') 1024 1024 n)
               (tick (tick w1)) = Some (Return r1, w3)"
    using stage_image [OF l1] assms(4,5) by blast
  have l3: "generation_lock (mgr w3)" by (simp add: assms(5))
  obtain r2 where r2: "fst g2 = Return r2"
    and u2: "unlocked (generate_mesh (d @ ''/generated_image.png'')
               (d @ ''/generated_mesh.glb'')) w3 = Some (Return r2, w4)"
    using stage_mesh [OF l3] assms(6,7) by blast
  have e4: "env w4 = env w"
    by (simp add: assms(2,4,5,6,7) generate_mesh_frame generate_image_frame)
  have t: "generate_full_pipeline_try q d n w1 =
            (if \<not> success r1 then
               Some (Return (stage_failed ''image'' ''Image generation failed: '' r1
                               (Some r1) None), w3)
             else mesh_stage d (time_at (env w1) (Suc (ticks w1))) r1 w3)"
    using assms(3) u1
    by (simp add: generate_full_pipeline_try_def case_prod_unfold now_def)
  have m: "mesh_stage d (time_at (env w1) (Suc (ticks w1))) r1 w3 =
            (if \<not> success r2 then
               Some (Return (stage_failed ''mesh'' ''Mesh generation failed: '' r2
                               (Some r1) (Some r2)), w4)
             else Some (pipeline_success d (time_at (env w1) (Suc (ticks w1))) r1 r2 w4))"
    using u2 by (simp add: mesh_stage_def)
  have e1: "env w1 = env w" by (simp add: assms(2))
  have a: "fst (try_acquire (emit (Enter ''generate_full_pipeline'') w))"
    using assms(1) by simp
  show ?thesis
    using r1 r2 t m a e4 e1 assms(2)
    by (simp add: generate_full_pipeline_def case_prod_unfold release_quietly_def
        pipeline_success_def now_def get_vram_info_def)
qed


text \<open>
  C8. The pipeline that has taken the lock and created the output directory calls
  generate\_image, which always returns a result. Whenever that result is a failure, the
  pipeline returns the failure of the stage "image" that carries this result and its error
  in the message, with no mesh stage and no mesh path; generate\_mesh is not entered, and
  after the return of generate\_image no slot changes and no external call is made.
\<close>

theorem stage_a_failure_aborts:
  "(\<exists>r. fst (generate_image q (d @ ''/generated_image.png'') 1024 1024 n x) = Return r) \<and>
   (\<not> generation_lock (mgr w) \<and>
    w1 = snd (try_acquire (emit (Enter ''generate_full_pipeline'') w)) \<and>
    fst (external w1) = Return () \<and>
    g1 = generate_image q (d @ ''/generated_image.png'') 1024 1024 n
           (snd (release (tick (tick w1)))) \<and>
    fst g1 = Return r1 \<and> \<not> success r1 \<longrightarrow>
      (\<exists>res w'. generate_full_pipeline q d n w = Some (res, w') \<and>
         res = stage_failed ''image'' ''Image generation failed: '' r1 (Some r1) None \<and>
         \<not> success res \<and> stage res = Some ''image'' \<and>
         error res =
           Some (''Image generation failed: '' @
                 (case error r1 of None \<Rightarrow> ''None'' | Some e \<Rightarrow> e)) \<and>
         stages_image res = Some r1 \<and> stages_mesh res = None \<and>
         image_path res = None \<and> mesh_path res = None \<and>
         entries ''generate_mesh'' (trace w') = entries ''generate_mesh'' (trace w) \<and>
         entries ''generate_image'' (trace w') = Suc (entries ''generate_image'' (trace w)) \<and>
         models (mgr w') = models (mgr (snd g1)) \<and> ticks w' = ticks (snd g1) \<and>
         \<not> generation_lock (mgr w')))"
proof (intro conjI impI)
  show "\<exists>r. fst (generate_image q (d @ ''/generated_image.png'') 1024 1024 n x) = Return r"
    by (rule generate_image_returns)
next
  assume a: "\<not> generation_lock (mgr w) \<and>
    w1 = snd (try_acquire (emit (Enter ''generate_full_pipeline'') w)) \<and>
    fst (external w1) = Return () \<and>
    g1 = generate_image q (d @ ''/generated_image.png'') 1024 1024 n
           (snd (release (tick (tick w1)))) \<and>
    fst g1 = Return r1 \<and> \<not> success r1"
  from a have free: "\<not> generation_lock (mgr w)" by blast
  from a have w1: "w1 = snd (try_acquire (emit (Enter ''generate_full_pipeline'') w))"
    by blast
  from a have u: "fst (external w1) = Return ()" by blast
  from a have g1: "g1 = generate_image q (d @ ''/generated_image.png'') 1024 1024 n
                    (snd (release (tick (tick w1))))" by blast
  from a have r1: "fst g1 = Return r1" "\<not> success r1" by blast+
  note st = pipeline_stages [OF free w1 u g1 refl refl refl]
  have p: "generate_full_pipeline q d n w =
             Some (stage_failed ''image'' ''Image generation failed: '' r1 (Some r1) None,
                   snd (release (relock (snd g1))))"
    using st r1 by auto
  have e: "entries ''generate_mesh'' (trace (snd (release (relock (snd g1))))) =
             entries ''generate_mesh'' (trace w)"
    "entries ''generate_image'' (trace (snd (release (relock (snd g1))))) =
       Suc (entries ''generate_image'' (trace w))"
    by (simp_all add: g1 w1 generate_image_frame)
  show "\<exists>res w'. generate_full_pipeline q d n w = Some (res, w') \<and>
         res = stage_failed ''image'' ''Image generation failed: '' r1 (Some r1) None \<and>
         \<not> success res \<and> stage res = Some ''image'' \<and>
         error res =
           Some (''Image generation failed: '' @
                 (case error r1 of None \<Rightarrow> ''None'' | Some e \<Rightarrow> e)) \<and>
         stages_image res = Some r1 \<and> stages_mesh res = None \<and>
         image_path res = None \<and> mesh_path res = None \<and>
         entries ''generate_mesh'' (trace w') = entries ''generate_mesh'' (trace w) \<and>
         entries ''generate_image'' (trace w') = Suc (entries ''generate_image'' (trace w)) \<and>
         models (mgr w') = models (mgr (snd g1)) \<and> ticks w' = ticks (snd g1) \<and>
         \<not> generation_lock (mgr w')"
    using e by (simp add: p stage_failed_def)
qed

lemmas pipeline_defs =
  generate_full_pipeline_def generate_full_pipeline_try_def mesh_stage_def unlocked_def
  pipeline_success_def acquire_blocking_def release_quietly_def

lemma flaky_image_stage:
  "fst (generate_image ''a chair'' (''out'' @ ''/generated_image.png'') 1024 1024 25
     (snd (release (tick (tick (snd (try_acquire
        (emit (Enter ''generate_full_pipeline'') (model_manager flaky))))))))) =
   Return (failed ''CUDA out of memory'')"
  by (simp add: load_defs generate_defs flaky_def calm_def emit_def tick_def)

theorem stage_a_failure_aborts_witness:
  "\<exists>res w'. generate_full_pipeline ''a chair'' ''out'' 25 (model_manager flaky) = Some (res, w') \<and>
     \<not> success res \<and> stage res = Some ''image'' \<and>
     error res = Some ''Image generation failed: CUDA out of memory'' \<and>
     stages_image res = Some (failed ''CUDA out of memory'') \<and>
     stages_mesh res = None \<and> mesh_path res = None \<and>
     entries ''generate_mesh'' (trace w') = 0 \<and>
     entries ''generate_image'' (trace w') = 1"
proof -
  have l: "\<not> generation_lock (mgr (model_manager flaky))"
    "fst (external (snd (try_acquire
        (emit (Enter ''generate_full_pipeline'') (model_manager flaky))))) = Return ()"
    "\<not> success (failed ''CUDA out of memory'')"
    "error (failed ''CUDA out of memory'') = Some ''CUDA out of memory''"
    "trace (model_manager flaky) = [Slots (models (mgr (model_manager flaky)))]"
    by (simp_all add: model_manager_def ModelManager_init_def flaky_def calm_def external_def
        failed_def)
  show ?thesis
    using stage_a_failure_aborts [where w = "model_manager flaky" and x = "model_manager flaky" and q = "''a chair''"
        and d = "''out''" and n = 25 and ?r1.0 = "failed ''CUDA out of memory''"
        and ?w1.0 = "snd (try_acquire
              (emit (Enter ''generate_full_pipeline'') (model_manager flaky)))"
        and ?g1.0 = "generate_image ''a chair'' (''out'' @ ''/generated_image.png'') 1024 1024 25
           (snd (release (tick (tick (snd (try_acquire
              (emit (Enter ''generate_full_pipeline'') (model_manager flaky))))))))"]
      flaky_image_stage l
    by (auto simp: stage_failed_def failed_def)
qed

lemma exec_credit:
  "\<exists>w'. exec c w = Some w' \<and> step_ok w w' \<and>
        generation_count (mgr w) + credit c w \<le> generation_count (mgr w')"
proof (cases c)
  case (GenerateMesh i p)
  obtain r where r: "fst (generate_mesh i p w) = Return r"
    using generate_mesh_returns by blast
  show ?thesis
    using GenerateMesh r generate_mesh_success(1) [OF r] generate_mesh_count [of w i p]
    by (simp add: generate_mesh_step)
next
  case (GenerateImage q p wd ht n)
  obtain r where r: "fst (generate_image q p wd ht n w) = Return r"
    using generate_image_returns by blast
  show ?thesis
    using GenerateImage r generate_image_success(1) [OF r] generate_image_count [of w q p wd ht n]
    by (simp add: generate_image_step)
qed (use exec_total [of c w] in \<open>auto simp: step_ok_def\<close>)

lemma run_credit:
  "\<exists>w'. run cs w = Some w' \<and> step_ok w w' \<and>
        generation_count (mgr w) + successes cs w \<le> generation_count (mgr w')"
proof (induction cs arbitrary: w)
  case Nil
  then show ?case by simp
next
  case (Cons c cs)
  obtain w1 where e: "exec c w = Some w1" "step_ok w w1"
    "generation_count (mgr w) + credit c w \<le> generation_count (mgr w1)"
    using exec_credit by blast
  obtain w' where r: "run cs w1 = Some w'" "step_ok w1 w'"
    "generation_count (mgr w1) + successes cs w1 \<le> generation_count (mgr w')"
    using Cons.IH by blast
  have "step_ok w w'" using e(2) r(2) by (rule step_ok_trans)
  then show ?case using e r by simp
qed

lemma get_status_needs_restart:
  "needs_restart (fst (get_status w)) = (restart_threshold (mgr w) \<le> int (generation_count (mgr w)))"
  by (simp add: get_status_def case_prod_unfold)

text \<open>
  C9. get\_status reports needs\_restart exactly when generation\_count has reached the
  restart threshold. A successful generate\_mesh or generate\_image raises
  generation\_count by one, and no call lowers it. So after a run from the fresh manager
  in which the successful calls of these two functions number at least the threshold,
  get\_status reports needs\_restart.
\<close>

theorem restart_signal:
  "needs_restart (fst (get_status w)) =
     (restart_threshold (mgr w) \<le> int (generation_count (mgr w))) \<and>
   (fst (generate_mesh i p w) = Return r \<and> success r \<longrightarrow>
      generation_count (mgr (snd (generate_mesh i p w))) = generation_count (mgr w) + 1) \<and>
   (fst (generate_image q p wd ht n w) = Return r \<and> success r \<longrightarrow>
      generation_count (mgr (snd (generate_image q p wd ht n w))) = generation_count (mgr w) + 1) \<and>
   (\<exists>w'. run cs (model_manager e) = Some w' \<and>
      successes cs (model_manager e) \<le> generation_count (mgr w') \<and>
      (restart_threshold (mgr (model_manager e)) \<le> int (successes cs (model_manager e)) \<longrightarrow>
         needs_restart (fst (get_status w'))))"
proof -
  obtain w' where w': "run cs (model_manager e) = Some w'" "step_ok (model_manager e) w'"
    "generation_count (mgr (model_manager e)) + successes cs (model_manager e)
       \<le> generation_count (mgr w')"
    using run_credit by blast
  have t: "restart_threshold (mgr w') = restart_threshold (mgr (model_manager e))"
    using w'(2) by (simp add: step_ok_def)
  have c: "successes cs (model_manager e) \<le> generation_count (mgr w')"
    using w'(3) by simp
  have "restart_threshold (mgr (model_manager e)) \<le> int (successes cs (model_manager e)) \<longrightarrow>
         needs_restart (fst (get_status w'))"
    using c t by (simp add: get_status_needs_restart)
  then show ?thesis
    using w'(1) c generate_mesh_success(1) generate_image_success(1)
    by (simp add: get_status_needs_restart)
qed


lemma eager_image:
  "succeeded (fst (generate_image ''a chair'' ''out.png'' 1024 1024 25 (model_manager eager)))"
  by (simp add: load_defs generate_defs eager_def calm_def)

theorem restart_signal_witness:
  "\<exists>w'. run [GenerateImage ''a chair'' ''out.png'' 1024 1024 25] (model_manager eager) = Some w' \<and>
     successes [GenerateImage ''a chair'' ''out.png'' 1024 1024 25] (model_manager eager) = 1 \<and>
     restart_threshold (mgr (model_manager eager)) = 1 \<and>
     needs_restart (fst (get_status w'))"
  using restart_signal [where cs = "[GenerateImage ''a chair'' ''out.png'' 1024 1024 25]"
      and e = eager and w = "model_manager eager"]
    eager_image
  by (simp add: model_manager_def ModelManager_init_def eager_def calm_def)


lemma pipeline_acquisitions:
  "\<exists>res w'. generate_full_pipeline q d n w = Some (res, w') \<and>
     (generation_lock (mgr w) \<and>
        res = pipeline_failed ''Another generation is in progress'' ''blocked'' \<and>
        acquisitions (trace w') = acquisitions (trace w) @ [TryAcquire False] \<or>
      (\<exists>e. raises (env w) (ticks w) = Some e) \<and> stage res = Some ''unknown'' \<and>
        acquisitions (trace w') = acquisitions (trace w) @ [TryAcquire True] \<or>
      raises (env w) (ticks w) = None \<and> stage res = Some ''image'' \<and>
        acquisitions (trace w') =
          acquisitions (trace w) @ [TryAcquire True, TryAcquire True, AcquireBlocking] \<or>
      raises (env w) (ticks w) = None \<and> (stage res = Some ''mesh'' \<or> success res) \<and>
        acquisitions (trace w') =
          acquisitions (trace w) @
            [TryAcquire True, TryAcquire True, AcquireBlocking, TryAcquire True, AcquireBlocking])"
proof (cases "generation_lock (mgr w)")
  case True
  then show ?thesis by (simp add: generate_full_pipeline_def try_acquire_held)
next
  case free: False
  let ?w1 = "snd (try_acquire (emit (Enter ''generate_full_pipeline'') w))"
  show ?thesis
  proof (cases "raises (env w) (ticks w)")
    case (Some e)
    then have "fst (external ?w1) = Raise e" by (simp add: external_def)
    from pipeline_mkdir_raises [OF free refl this, of q d n] show ?thesis
      using free Some by (simp add: pipeline_failed_def)
  next
    case None
    then have u: "fst (external ?w1) = Return ()" by (simp add: external_def)
    note st = pipeline_stages [OF free refl u refl refl refl refl, of q d n]
    then obtain r1 where r1: "fst (generate_image q (d @ ''/generated_image.png'') 1024 1024 n
                (snd (release (tick (tick ?w1))))) = Return r1" by blast
    show ?thesis
    proof (cases "success r1")
      case False
      then show ?thesis
        using st r1 free None by (auto simp: generate_image_frame stage_failed_def)
    next
      case True
      then show ?thesis
        using st r1 free None
        by (auto simp: generate_image_frame generate_mesh_frame stage_failed_def)
    qed
  qed
qed

text \<open>
  C2, as the code has it. generate\_mesh and generate\_image take the lock once, by a
  try-acquire at entry. generate\_full\_pipeline takes it by a try-acquire at entry, and
  with the lock held it returns the busy result. When it goes on, each stage takes the lock
  by its own try-acquire, and after each stage the pipeline takes the lock again by a
  blocking acquire: once when the image stage fails, twice otherwise.
\<close>

theorem gate_acquisitions:
  "acquisitions (trace (snd (generate_mesh i p w))) =
     acquisitions (trace w) @ [TryAcquire (\<not> generation_lock (mgr w))] \<and>
   acquisitions (trace (snd (generate_image q p wd ht n w))) =
     acquisitions (trace w) @ [TryAcquire (\<not> generation_lock (mgr w))] \<and>
   (\<exists>res w'. generate_full_pipeline q d n w = Some (res, w') \<and>
     (generation_lock (mgr w) \<and>
        res = pipeline_failed ''Another generation is in progress'' ''blocked'' \<and>
        acquisitions (trace w') = acquisitions (trace w) @ [TryAcquire False] \<or>
      (\<exists>e. raises (env w) (ticks w) = Some e) \<and> stage res = Some ''unknown'' \<and>
        acquisitions (trace w') = acquisitions (trace w) @ [TryAcquire True] \<or>
      raises (env w) (ticks w) = None \<and> stage res = Some ''image'' \<and>
        acquisitions (trace w') =
          acquisitions (trace w) @ [TryAcquire True, TryAcquire True, AcquireBlocking] \<or>
      raises (env w) (ticks w) = None \<and> (stage res = Some ''mesh'' \<or> success res) \<and>
        acquisitions (trace w') =
          acquisitions (trace w) @
            [TryAcquire True, TryAcquire True, AcquireBlocking, TryAcquire True, AcquireBlocking]))"
  using pipeline_acquisitions [of q d n w]
  by (simp add: generate_mesh_frame generate_image_frame)

lemma calm_pipeline_blocks:
  "AcquireBlocking \<in> set (acquisitions (trace (snd (the
     (generate_full_pipeline ''a chair'' ''out'' 25 (model_manager calm))))))"
  using pipeline_acquisitions [of "''a chair''" "''out''" 25 "model_manager calm"]
  by (auto simp: model_manager_def ModelManager_init_def calm_def)

lemma flaky_pipeline_stage:
  "\<exists>res w'. generate_full_pipeline ''a chair'' ''out'' 25 (model_manager flaky) = Some (res, w') \<and>
     stage res = Some ''image'' \<and> \<not> success res"
  by (simp add: load_defs generate_defs pipeline_defs flaky_def calm_def stage_failed_def
      failed_def)

theorem gate_acquisitions_witness:
  "\<exists>res w'. generate_full_pipeline ''a chair'' ''out'' 25 (model_manager flaky) = Some (res, w') \<and>
     stage res = Some ''image'' \<and>
     acquisitions (trace w') = [TryAcquire True, TryAcquire True, AcquireBlocking]"
proof -
  obtain res w' where
    p: "generate_full_pipeline ''a chair'' ''out'' 25 (model_manager flaky) = Some (res, w')"
    and s: "stage res = Some ''image''" "\<not> success res"
    using flaky_pipeline_stage by blast
  have l: "\<not> generation_lock (mgr (model_manager flaky))"
    "raises (env (model_manager flaky)) (ticks (model_manager flaky)) = None"
    "acquisitions (trace (model_manager flaky)) = []"
    by (simp_all add: model_manager_def ModelManager_init_def flaky_def calm_def)
  show ?thesis
    using gate_acquisitions [where q = "''a chair''" and d = "''out''" and n = 25
      and w = "model_manager flaky"] p s l
    by auto
qed

text \<open>
  C2 as the specification words it fails: the pipeline takes the lock with a blocking
  acquire (lines 498 and 513).
\<close>

theorem pipeline_acquire_is_blocking:
  "AcquireBlocking \<in> set (acquisitions (trace (snd (the
     (generate_full_pipeline ''a chair'' ''out'' 25 (model_manager calm))))))"
  by (rule calm_pipeline_blocks)

lemma willing_cong:
  "env w' = env w \<Longrightarrow> vram_buffer_gb (mgr w') = vram_buffer_gb (mgr w) \<Longrightarrow>
   willing w' = willing w"
  by (simp add: willing_def)



lemma willing_steps [simp]:
  "willing (tick w) = willing w"
  "willing (emit e w) = willing w"
  "willing (set_state t x w) = willing w"
  "willing (set_pipeline t h w) = willing w"
  "willing (inc_load_count t w) = willing w"
  "willing (count_generation el w) = willing w"
  "willing (relock w) = willing w"
  "willing (snd (release w)) = willing w"
  "willing (snd (try_acquire w)) = willing w"
  by (simp_all add: willing_def)































section \<open>The exponent of a float\<close>

text \<open>
  \<open>exponent\<close> is the binary exponent that \<open>nearest\<close> needs: a real that is not zero
  lies between the power of two of its exponent and the next one.
\<close>

lemma bit_length_bounds:
  "0 < n \<Longrightarrow> 1 \<le> bit_length n \<and> 2 ^ nat (bit_length n - 1) \<le> n \<and> n < 2 ^ nat (bit_length n)"
proof (induction n rule: bit_length.induct)
  case (1 n)
  show ?case
  proof (cases "n = 1")
    case True
    then show ?thesis by (simp add: bit_length.simps)
  next
    case False
    with 1(2) have m: "0 < n div 2" by simp
    have n: "\<not> n \<le> 0" using 1(2) by simp
    note ih = 1(1) [OF n m]
    have b: "bit_length n = 1 + bit_length (n div 2)"
      using n by (subst bit_length.simps) simp
    have p: "(2::int) ^ nat (bit_length (n div 2)) = 2 * 2 ^ nat (bit_length (n div 2) - 1)"
      using ih by (metis One_nat_def Suc_nat_eq_nat_zadd1 add.commute diff_add_cancel diff_ge_0_iff_ge power_Suc)
    have "2 * (n div 2) \<le> n" "n < 2 * (n div 2) + 2" by simp_all
    then show ?thesis
      using ih p by (simp add: b nat_add_distrib)
  qed
qed

lemma pow2_pos [simp]: "0 < pow2 e"
  by (simp add: pow2_def)

lemma pow2_powr: "pow2 e = 2 powr (real_of_int e)"
proof (cases "0 \<le> e")
  case True
  then show ?thesis
    by (simp add: pow2_def powr_realpow [symmetric])
next
  case False
  then have "2 powr (real_of_int e) = 1 / 2 powr (real (nat (- e)))"
    by (simp add: powr_minus_divide [symmetric])
  then show ?thesis using False
    by (simp add: pow2_def powr_realpow [symmetric])
qed

lemma pow2_mono: "a \<le> b \<Longrightarrow> pow2 a \<le> pow2 b"
  by (simp add: pow2_powr)

lemma pow2_add: "pow2 (a + b) = pow2 a * pow2 b"
  by (simp add: pow2_powr powr_add)

lemma pow2_nat: "0 \<le> e \<Longrightarrow> pow2 e = of_int (2 ^ nat e)"
  by (simp add: pow2_def)

lemma exponent_bounds:
  assumes "x \<noteq> 0"
  shows "pow2 (exponent x) \<le> \<bar>x\<bar>" and "\<bar>x\<bar> < pow2 (exponent x + 1)"
proof -
  have "pow2 (exponent x) \<le> \<bar>x\<bar> \<and> \<bar>x\<bar> < pow2 (exponent x + 1)"
  proof (cases "1 \<le> \<bar>x\<bar>")
    case True
    let ?n = "\<lfloor>\<bar>x\<bar>\<rfloor>"
    have n: "0 < ?n" using True by linarith
    note b = bit_length_bounds [OF n]
    have e: "exponent x = bit_length ?n - 1" using True by (simp add: exponent_def)
    have "real_of_int (2 ^ nat (bit_length ?n - 1)) \<le> real_of_int ?n"
      using b by (simp only: of_int_le_iff)
    also have "\<dots> \<le> \<bar>x\<bar>" by simp
    finally have l: "pow2 (exponent x) \<le> \<bar>x\<bar>"
      using b by (simp add: e pow2_def)
    have "\<bar>x\<bar> < real_of_int (?n + 1)" by linarith
    also have "\<dots> \<le> real_of_int (2 ^ nat (bit_length ?n))"
      using b by (simp only: of_int_le_iff) simp
    finally have u: "\<bar>x\<bar> < pow2 (exponent x + 1)"
      using b by (simp add: e pow2_def)
    show ?thesis using l u by simp
  next
    case False
    let ?y = "1 / \<bar>x\<bar>"
    let ?k = "\<lceil>?y\<rceil> - 1"
    have x: "0 < \<bar>x\<bar>" "\<bar>x\<bar> < 1" using assms False by simp_all
    have y: "1 < ?y" using x by simp
    have k: "0 < ?k" using y by linarith
    note b = bit_length_bounds [OF k]
    have e: "exponent x = - bit_length ?k" using False by (simp add: exponent_def)
    have "?y \<le> real_of_int (?k + 1)" by simp
    also have "\<dots> \<le> real_of_int (2 ^ nat (bit_length ?k))"
      using b by (simp only: of_int_le_iff) simp
    finally have "?y \<le> 2 ^ nat (bit_length ?k)" by simp
    then have "1 \<le> \<bar>x\<bar> * 2 ^ nat (bit_length ?k)"
      using x by (simp add: field_simps)
    then have l: "pow2 (exponent x) \<le> \<bar>x\<bar>"
      using b by (simp add: e pow2_def field_simps)
    have "real_of_int (2 ^ nat (bit_length ?k - 1)) \<le> real_of_int ?k"
      using b by (simp only: of_int_le_iff)
    also have "\<dots> < ?y" by linarith
    finally have "2 ^ nat (bit_length ?k - 1) < ?y" by simp
    then have "\<bar>x\<bar> * 2 ^ nat (bit_length ?k - 1) < 1"
      using x by (simp add: field_simps)
    then have u: "\<bar>x\<bar> < pow2 (exponent x + 1)"
      using b by (auto simp: e pow2_def field_simps)
    show ?thesis using l u by simp
  qed
  then show "pow2 (exponent x) \<le> \<bar>x\<bar>" and "\<bar>x\<bar> < pow2 (exponent x + 1)" by simp_all
qed

end
